theory Spec2Isabelle
  imports Complex_Main "HOL-Library.Sublist"
begin

section \<open>JavaScript strings and numbers\<close>

text \<open>
  Strings are lists of characters of the ASCII range. White space is the ASCII part of
  what \<^verbatim>\<open>\s\<close> and \<^verbatim>\<open>String.prototype.trim\<close> accept
  (space, tab, line feed, vertical tab, form feed, carriage return); a word character is
  what \<^verbatim>\<open>\w\<close> accepts.
\<close>

abbreviation LF :: char where "LF \<equiv> CHR 0x0A"
abbreviation CR :: char where "CR \<equiv> CHR 0x0D"
abbreviation DQUOTE :: char where "DQUOTE \<equiv> CHR 0x22"
abbreviation SQUOTE :: char where "SQUOTE \<equiv> CHR 0x27"
abbreviation BSLASH :: char where "BSLASH \<equiv> CHR 0x5C"

definition is_space :: "char \<Rightarrow> bool" where
  "is_space c \<longleftrightarrow>
     c = CHR '' '' \<or> c = CHR 0x09 \<or> c = LF \<or> c = CHR 0x0B \<or> c = CHR 0x0C \<or> c = CR"

definition is_word :: "char \<Rightarrow> bool" where
  "is_word c \<longleftrightarrow>
     (let n = (of_char c :: nat)
      in (48 \<le> n \<and> n \<le> 57) \<or> (65 \<le> n \<and> n \<le> 90) \<or> (97 \<le> n \<and> n \<le> 122) \<or> n = 95)"

definition trimStart :: "string \<Rightarrow> string" where
  "trimStart s = dropWhile is_space s"

definition trim :: "string \<Rightarrow> string" where
  "trim s = rev (dropWhile is_space (rev (dropWhile is_space s)))"

definition startsWith :: "string \<Rightarrow> string \<Rightarrow> bool" where
  "startsWith s p \<longleftrightarrow> take (length p) s = p"

definition endsWith :: "string \<Rightarrow> string \<Rightarrow> bool" where
  "endsWith s p \<longleftrightarrow> length p \<le> length s \<and> drop (length s - length p) s = p"

text \<open>\<^verbatim>\<open>s.slice(1, -1)\<close>: without the first and the last character; empty when
  \<open>s\<close> has fewer than two characters.\<close>

definition slice_1_m1 :: "string \<Rightarrow> string" where
  "slice_1_m1 s = butlast (tl s)"

text \<open>\<^verbatim>\<open>s.split(c)\<close> for a one-character separator: \<open>n\<close> separators give
  \<open>n + 1\<close> pieces, and the empty string gives one empty piece.\<close>

fun cons_first :: "char \<Rightarrow> string list \<Rightarrow> string list" where
  "cons_first x [] = [[x]]"
| "cons_first x (y # ys) = (x # y) # ys"

fun split_on :: "char \<Rightarrow> string \<Rightarrow> string list" where
  "split_on c [] = [[]]"
| "split_on c (x # xs) = (if x = c then [] # split_on c xs else cons_first x (split_on c xs))"

text \<open>\<^verbatim>\<open>s.split(/\r?\n/)\<close>: a line feed, with the carriage return before it when
  there is one, separates; a carriage return alone stays in its line.\<close>

fun split_lines :: "string \<Rightarrow> string list" where
  "split_lines [] = [[]]"
| "split_lines [x] = (if x = LF then [[], []] else [[x]])"
| "split_lines (x # y # xs) =
     (if x = LF then [] # split_lines (y # xs)
      else if x = CR \<and> y = LF then [] # split_lines xs
      else cons_first x (split_lines (y # xs)))"

text \<open>\<^verbatim>\<open>xs.join(sep)\<close> on an array of strings.\<close>

fun join :: "string \<Rightarrow> string list \<Rightarrow> string" where
  "join sep [] = []"
| "join sep [x] = x"
| "join sep (x # y # ys) = x @ sep @ join sep (y # ys)"

text \<open>\<^verbatim>\<open>s.replace(/"/g, '\\"')\<close>: every double quote gets a backslash before it.\<close>

fun escape_quotes :: "string \<Rightarrow> string" where
  "escape_quotes [] = []"
| "escape_quotes (c # cs) =
     (if c = DQUOTE then BSLASH # DQUOTE # escape_quotes cs else c # escape_quotes cs)"

text \<open>\<^verbatim>\<open>s.replace('.json', '')\<close>: the first occurrence of the pattern is removed.\<close>

fun remove_first :: "string \<Rightarrow> string \<Rightarrow> string" where
  "remove_first p [] = []"
| "remove_first p (c # cs) =
     (if startsWith (c # cs) p then drop (length p) (c # cs) else c # remove_first p cs)"

subsection \<open>Integers as text\<close>

text \<open>The decimal form of a number, as \<^verbatim>\<open>String(i)\<close> and a template literal
  print an integer (below \<open>10\<^sup>2\<^sup>1\<close> in absolute value, where JavaScript changes to
  the exponent form).\<close>

definition digit_char :: "nat \<Rightarrow> char" where
  "digit_char n = ''0123456789'' ! n"

fun show_nat :: "nat \<Rightarrow> string" where
  "show_nat n = (if n < 10 then [digit_char n] else show_nat (n div 10) @ [digit_char (n mod 10)])"

declare show_nat.simps [simp del]

definition show_int :: "int \<Rightarrow> string" where
  "show_int i = (if i < 0 then CHR ''-'' # show_nat (nat (- i)) else show_nat (nat i))"

text \<open>\<^verbatim>\<open>s.padStart(3, '0')\<close>.\<close>

definition padStart3 :: "string \<Rightarrow> string" where
  "padStart3 s = replicate (3 - length s) CHR ''0'' @ s"

text \<open>\<^verbatim>\<open>parseInt(s)\<close> with no radix: leading white space is skipped, a sign is
  read, the prefix \<^verbatim>\<open>0x\<close> or \<^verbatim>\<open>0X\<close> selects base 16, and the longest run of
  digits of the base is the value; \<open>None\<close> is \<^verbatim>\<open>NaN\<close>, the result when that
  run is empty.\<close>

definition digit_value :: "char \<Rightarrow> nat option" where
  "digit_value c =
     (let n = (of_char c :: nat)
      in if 48 \<le> n \<and> n \<le> 57 then Some (n - 48)
         else if 97 \<le> n \<and> n \<le> 102 then Some (n - 87)
         else if 65 \<le> n \<and> n \<le> 70 then Some (n - 55)
         else None)"

definition is_digit :: "nat \<Rightarrow> char \<Rightarrow> bool" where
  "is_digit radix c = (case digit_value c of None \<Rightarrow> False | Some d \<Rightarrow> d < radix)"

definition digits_value :: "nat \<Rightarrow> string \<Rightarrow> nat" where
  "digits_value radix ds = foldl (\<lambda>acc c. acc * radix + (case digit_value c of None \<Rightarrow> 0 | Some d \<Rightarrow> d)) 0 ds"

definition parseInt :: "string \<Rightarrow> int option" where
  "parseInt s =
     (let t = trimStart s;
          neg = startsWith t ''-'';
          t1 = (if startsWith t ''-'' \<or> startsWith t ''+'' then tl t else t);
          hex = startsWith t1 ''0x'' \<or> startsWith t1 ''0X'';
          radix = (if hex then 16 else 10);
          t2 = (if hex then drop 2 t1 else t1);
          ds = takeWhile (is_digit radix) t2
      in if ds = [] then None
         else Some ((if neg then - 1 else 1) * int (digits_value radix ds)))"

section \<open>The front matter of a post file\<close>

text \<open>A front-matter value is a string or, when written \<^verbatim>\<open>[a, b, c]\<close>, an array of
  strings.\<close>

datatype fmval = FStr string | FArr "string list"

text \<open>\<^verbatim>\<open>String(v)\<close>: an array prints its members joined with commas.\<close>

fun fm_string :: "fmval \<Rightarrow> string" where
  "fm_string (FStr s) = s"
| "fm_string (FArr xs) = join '','' xs"

text \<open>Truthiness: \<^verbatim>\<open>undefined\<close> and the empty string are falsy, every array is
  truthy.\<close>

fun fm_truthy :: "fmval option \<Rightarrow> bool" where
  "fm_truthy None = False"
| "fm_truthy (Some (FStr s)) = (s \<noteq> [])"
| "fm_truthy (Some (FArr xs)) = True"

definition fm_or :: "fmval option \<Rightarrow> fmval \<Rightarrow> fmval" where
  "fm_or v d = (case v of None \<Rightarrow> d | Some x \<Rightarrow> if fm_truthy (Some x) then x else d)"

text \<open>\<^verbatim>\<open>postContent.match(/^---\r?\n([\s\S]*?)\r?\n---/)\<close>. The content has to start
  with the opening line; the group is the shortest text after it that is followed by a line
  break and \<^verbatim>\<open>---\<close>. The result is the group and the rest of the content after the
  match (the body of the post).\<close>

fun lazy_until_close :: "string \<Rightarrow> (string \<times> string) option" where
  "lazy_until_close [] = None"
| "lazy_until_close (c # cs) =
     (if startsWith (c # cs) (CR # LF # ''---'') then Some ([], drop 5 (c # cs))
      else if startsWith (c # cs) (LF # ''---'') then Some ([], drop 4 (c # cs))
      else (case lazy_until_close cs of None \<Rightarrow> None | Some (g, body) \<Rightarrow> Some (c # g, body)))"

definition frontMatterMatch :: "string \<Rightarrow> (string \<times> string) option" where
  "frontMatterMatch postContent =
     (if startsWith postContent (''---'' @ [CR, LF]) then lazy_until_close (drop 5 postContent)
      else if startsWith postContent (''---'' @ [LF]) then lazy_until_close (drop 4 postContent)
      else None)"

text \<open>\<^verbatim>\<open>line.match(/^([\w-]*?):\s*(.*)$/)\<close>. The key is the run of word characters and
  hyphens before the first colon; the white space after the colon is skipped; the value runs to
  the end of the line and, as \<^verbatim>\<open>.\<close> matches no line terminator, must not hold one.\<close>

definition match_line :: "string \<Rightarrow> (string \<times> string) option" where
  "match_line line =
     (let key = takeWhile (\<lambda>c. is_word c \<or> c = CHR ''-'') line;
          rest = drop (length key) line
      in if \<not> startsWith rest '':'' then None
         else (let v = dropWhile is_space (tl rest)
               in if CR \<in> set v \<or> LF \<in> set v then None else Some (key, v)))"

text \<open>The value of a line: trimmed, one pair of surrounding quotes removed, and a bracketed
  value split at commas into trimmed members.\<close>

definition unquote :: "string \<Rightarrow> string" where
  "unquote v =
     (if (startsWith v [DQUOTE] \<and> endsWith v [DQUOTE]) \<or> (startsWith v [SQUOTE] \<and> endsWith v [SQUOTE])
      then slice_1_m1 v else v)"

definition parse_value :: "string \<Rightarrow> fmval" where
  "parse_value raw =
     (let v = unquote (trim raw)
      in if startsWith v ''['' \<and> endsWith v '']''
         then FArr (map trim (split_on CHR '','' (slice_1_m1 v)))
         else FStr v)"

text \<open>The object \<^verbatim>\<open>frontMatter\<close>, as the list of its assignments with the latest
  first: the lines are read in order, and a later line overwrites an earlier one with the same
  key. \<open>fm_get\<close> reads a member, \<open>None\<close> being \<^verbatim>\<open>undefined\<close>.\<close>

type_synonym frontMatter = "(string \<times> fmval) list"

definition fm_get :: "frontMatter \<Rightarrow> string \<Rightarrow> fmval option" where
  "fm_get fm key = map_of fm key"

definition add_line :: "frontMatter \<Rightarrow> string \<Rightarrow> frontMatter" where
  "add_line fm line =
     (case match_line line of None \<Rightarrow> fm | Some (key, v) \<Rightarrow> (key, parse_value v) # fm)"

definition parse_front_matter :: "string \<Rightarrow> frontMatter" where
  "parse_front_matter block = foldl add_line [] (split_lines block)"

text \<open>\<^verbatim>\<open>parseInt(frontMatter[key])\<close>; \<^verbatim>\<open>parseInt(undefined)\<close> is \<^verbatim>\<open>NaN\<close>.\<close>

definition parseInt_fm :: "fmval option \<Rightarrow> int option" where
  "parseInt_fm v = (case v of None \<Rightarrow> None | Some x \<Rightarrow> parseInt (fm_string x))"

text \<open>\<^verbatim>\<open>n || d\<close> on a number: \<^verbatim>\<open>NaN\<close> and \<open>0\<close> are falsy.\<close>

definition num_or :: "int option \<Rightarrow> int \<Rightarrow> int" where
  "num_or n d = (case n of None \<Rightarrow> d | Some i \<Rightarrow> if i = 0 then d else i)"

definition parse_tags :: "fmval option \<Rightarrow> string list" where
  "parse_tags v =
     (case v of
        None \<Rightarrow> []
      | Some (FArr xs) \<Rightarrow> xs
      | Some (FStr s) \<Rightarrow> if s = [] then [] else map trim (split_on CHR '','' s))"

section \<open>Image descriptors\<close>

text \<open>The content of a descriptor file, as \<^verbatim>\<open>JSON.parse\<close> returns it. Numbers are
  rationals: the rounding of IEEE doubles is outside this model. An object is the list of its
  members, the first entry of a key being its value.\<close>

datatype json =
    JNull
  | JBool bool
  | JNum rat
  | JStr string
  | JArr "json list"
  | JObj "(string \<times> json) list"

fun js_truthy :: "json \<Rightarrow> bool" where
  "js_truthy JNull = False"
| "js_truthy (JBool b) = b"
| "js_truthy (JNum n) = (n \<noteq> 0)"
| "js_truthy (JStr s) = (s \<noteq> [])"
| "js_truthy (JArr xs) = True"
| "js_truthy (JObj kvs) = True"

text \<open>\<^verbatim>\<open>img[key]\<close> for one of the descriptor keys; \<open>None\<close> is
  \<^verbatim>\<open>undefined\<close>. Only an object has such a member (\<^verbatim>\<open>null\<close> is handled
  by the caller, where the access throws).\<close>

fun js_get :: "json \<Rightarrow> string \<Rightarrow> json option" where
  "js_get (JObj kvs) key = map_of kvs key"
| "js_get _ key = None"

text \<open>\<^verbatim>\<open>a || b\<close> where both may be \<^verbatim>\<open>undefined\<close>, and where the second is
  a constant.\<close>

definition or_else :: "json option \<Rightarrow> json option \<Rightarrow> json option" where
  "or_else a b = (case a of None \<Rightarrow> b | Some v \<Rightarrow> if js_truthy v then Some v else b)"

definition or_default :: "json option \<Rightarrow> json \<Rightarrow> json" where
  "or_default a d = (case a of None \<Rightarrow> d | Some v \<Rightarrow> if js_truthy v then v else d)"

subsection \<open>parseFloat\<close>

datatype jsnum = NaN | Num rat | PosInfinity | NegInfinity

definition is_dec :: "char \<Rightarrow> bool" where
  "is_dec c \<longleftrightarrow> is_digit 10 c"

text \<open>The exponent part \<^verbatim>\<open>e\<close>, sign, digits; it counts only when digits follow.\<close>

definition exponent_of :: "string \<Rightarrow> int" where
  "exponent_of r =
     (if startsWith r ''e'' \<or> startsWith r ''E'' then
        (let r1 = tl r;
             neg = startsWith r1 ''-'';
             r2 = (if startsWith r1 ''-'' \<or> startsWith r1 ''+'' then tl r1 else r1);
             ds = takeWhile is_dec r2
         in if ds = [] then 0 else (if neg then - 1 else 1) * int (digits_value 10 ds))
      else 0)"

definition scale10 :: "rat \<Rightarrow> int \<Rightarrow> rat" where
  "scale10 m e = (if 0 \<le> e then m * 10 ^ nat e else m / 10 ^ nat (- e))"

text \<open>\<^verbatim>\<open>parseFloat(s)\<close> on a string: leading white space is skipped and the longest
  prefix that is a decimal literal (sign, digits, fraction, exponent) is the value.\<close>

definition parseFloat_string :: "string \<Rightarrow> jsnum" where
  "parseFloat_string s =
     (let t = trimStart s;
          neg = startsWith t ''-'';
          t1 = (if startsWith t ''-'' \<or> startsWith t ''+'' then tl t else t)
      in if startsWith t1 ''Infinity'' then (if neg then NegInfinity else PosInfinity)
         else (let ip = takeWhile is_dec t1;
                   r1 = drop (length ip) t1;
                   fp = (if startsWith r1 ''.'' then takeWhile is_dec (tl r1) else []);
                   r2 = (if startsWith r1 ''.'' then drop (length fp) (tl r1) else r1)
               in if ip = [] \<and> fp = [] then NaN
                  else (let m = of_nat (digits_value 10 (ip @ fp)) / 10 ^ length fp;
                            v = scale10 m (exponent_of r2)
                        in Num (if neg then - v else v))))"

text \<open>\<^verbatim>\<open>parseFloat(v)\<close> converts its argument to a string first. A number gives itself
  back; \<^verbatim>\<open>null\<close>, a boolean and an object print as text that is no number; an array
  prints its members separated by commas, so that only its first member is read.\<close>

fun parseFloat :: "json \<Rightarrow> jsnum" where
  "parseFloat (JNum n) = Num n"
| "parseFloat (JStr s) = parseFloat_string s"
| "parseFloat (JArr (x # xs)) = parseFloat x"
| "parseFloat _ = NaN"

subsection \<open>Normalising a descriptor\<close>

record image =
  url :: json
  thumb :: json
  aspectRatio :: jsnum
  width :: json
  height :: json

text \<open>The callback of \<^verbatim>\<open>rawImages.map\<close> in \<^verbatim>\<open>getAlbums\<close>.\<close>

definition normalize_image :: "json \<Rightarrow> image" where
  "normalize_image img =
     \<lparr> url = or_default (or_else (js_get img ''url'') (js_get img ''imageFull-link'')) (JStr []),
       thumb = or_default (or_else (js_get img ''thumb'') (js_get img ''thumbnail-link'')) (JStr []),
       aspectRatio =
         parseFloat (or_default (or_else (js_get img ''aspectRatio'') (js_get img ''aspect-ratio''))
                       (JNum (3 / 2))),
       width = or_default (js_get img ''width'') (JNum 0),
       height = or_default (js_get img ''height'') (JNum 0) \<rparr>"

text \<open>Reading the descriptor file. \<open>None\<close> is a file that \<^verbatim>\<open>JSON.parse\<close> rejects.
  A value that is no array has no \<^verbatim>\<open>map\<close>, and a \<^verbatim>\<open>null\<close> member makes
  the callback throw: in each case the \<^verbatim>\<open>catch\<close> leaves \<^verbatim>\<open>images\<close>
  empty.\<close>

definition read_images :: "json option \<Rightarrow> image list" where
  "read_images content =
     (case content of
        Some (JArr rawImages) \<Rightarrow>
          if JNull \<in> set rawImages then [] else map normalize_image rawImages
      | _ \<Rightarrow> [])"

section \<open>The environment and the stored state\<close>

text \<open>What the server takes from outside is a parameter of the model: the configuration
  file, the \<^verbatim>\<open>slugify\<close> package behind \<^verbatim>\<open>createSlug\<close>, the clock, the
  \<^verbatim>\<open>Date\<close> and \<^verbatim>\<open>URL\<close> parsers, the image library and the storage
  service. A call that may throw returns an option (or \<open>False\<close>); \<^verbatim>\<open>NaN\<close> is
  \<open>None\<close>.\<close>

type_synonym buffer = string

record b2Config =
  use_cdn :: bool
  cdn_domain :: string
  bucket_name :: string

record env =
  config :: b2Config
  createSlug :: "string \<Rightarrow> string"
  today :: string
  parseDate :: "string \<Rightarrow> int option"
  pathname :: "json \<Rightarrow> string option"
  metadata :: "buffer \<Rightarrow> (nat \<times> nat) option"
  toJpeg :: "buffer \<Rightarrow> buffer option"
  toThumbnail :: "buffer \<Rightarrow> buffer option"
  uploadToB2 :: "string \<Rightarrow> buffer \<Rightarrow> string \<Rightarrow> bool"
  deleteFromB2 :: "string \<Rightarrow> bool"

definition getCdnUrl :: "b2Config \<Rightarrow> string \<Rightarrow> string" where
  "getCdnUrl cfg filePath =
     (if use_cdn cfg \<and> cdn_domain cfg \<noteq> [] then ''https://'' @ cdn_domain cfg @ ''/'' @ filePath
      else ''https://f003.backblazeb2.com/file/'' @ bucket_name cfg @ ''/'' @ filePath)"

text \<open>A directory is the list of its files, name and content, in the order in which
  \<^verbatim>\<open>readdirSync\<close> lists them; names are distinct. A post file holds text, a file of
  the data directory holds a JSON value, or \<open>None\<close> when its text is no JSON. The calls
  made to the storage service are logged.\<close>

type_synonym 'a dir = "(string \<times> 'a) list"

datatype call = Upload string buffer string | Delete string

record state =
  posts :: "string dir"
  data :: "json option dir"
  remote :: "call list"

definition existsSync :: "'a dir \<Rightarrow> string \<Rightarrow> bool" where
  "existsSync d name \<longleftrightarrow> map_of d name \<noteq> None"

text \<open>\<^verbatim>\<open>writeFileSync\<close> replaces the content of an existing file and creates a
  missing one (listed last).\<close>

fun writeFileSync :: "string \<Rightarrow> 'a \<Rightarrow> 'a dir \<Rightarrow> 'a dir" where
  "writeFileSync name c [] = [(name, c)]"
| "writeFileSync name c ((n, x) # d) =
     (if n = name then (n, c) # d else (n, x) # writeFileSync name c d)"

definition renameSync :: "string \<Rightarrow> string \<Rightarrow> 'a dir \<Rightarrow> 'a dir" where
  "renameSync old new d =
     (case map_of d old of
        None \<Rightarrow> d
      | Some c \<Rightarrow> if old = new then d else writeFileSync new c (filter (\<lambda>f. fst f \<noteq> old) d))"

section \<open>Reading the albums\<close>

record album =
  slug :: string
  title :: fmval
  description :: fmval
  developer :: fmval
  date :: fmval
  tags :: "string list"
  cardImage :: int
  cardOffset :: int
  cardOffsetX :: int
  cardZoom :: int
  bannerImage :: int
  bannerOffset :: int
  bannerOffsetX :: int
  bannerZoom :: int
  images :: "image list"
  imageCount :: nat
  postFile :: string
  jsonFile :: string

text \<open>The object pushed to \<^verbatim>\<open>albums\<close> for one descriptor file.\<close>

definition make_album ::
  "string \<Rightarrow> string \<Rightarrow> string \<Rightarrow> frontMatter \<Rightarrow> image list \<Rightarrow> album" where
  "make_album slg pf jf fm imgs =
     \<lparr> slug = slg,
       title = fm_or (fm_get fm ''title'') (FStr slg),
       description = fm_or (fm_get fm ''description'') (FStr ''Virtual Photography''),
       developer = fm_or (fm_get fm ''developer'') (FStr []),
       date = fm_or (fm_get fm ''date'') (FStr []),
       tags = parse_tags (fm_get fm ''tags''),
       cardImage = num_or (parseInt_fm (fm_get fm ''card-image'')) 0,
       cardOffset = num_or (parseInt_fm (fm_get fm ''card-offset'')) 50,
       cardOffsetX = num_or (parseInt_fm (fm_get fm ''card-offset-x'')) 50,
       cardZoom = num_or (parseInt_fm (fm_get fm ''card-zoom'')) 100,
       bannerImage = num_or (parseInt_fm (fm_get fm ''banner-image'')) 0,
       bannerOffset = num_or (parseInt_fm (fm_get fm ''banner-offset'')) 50,
       bannerOffsetX = num_or (parseInt_fm (fm_get fm ''banner-offset-x'')) 50,
       bannerZoom = num_or (parseInt_fm (fm_get fm ''banner-zoom'')) 100,
       images = imgs,
       imageCount = length imgs,
       postFile = pf,
       jsonFile = jf \<rparr>"

text \<open>The body of the loop over the descriptor files: the first post file whose name ends
  with the slug and \<^verbatim>\<open>.md\<close> is read; without such a file, or without a front
  matter in it, the descriptor gives no album.\<close>

definition read_album :: "string dir \<Rightarrow> string \<times> json option \<Rightarrow> album option" where
  "read_album postsDir jf =
     (let slg = remove_first ''.json'' (fst jf);
          postFiles = filter (\<lambda>pf. endsWith (fst pf) (slg @ ''.md'')) postsDir
      in case postFiles of
           [] \<Rightarrow> None
         | pf # _ \<Rightarrow>
             (case frontMatterMatch (snd pf) of
                None \<Rightarrow> None
              | Some m \<Rightarrow>
                  Some (make_album slg (fst pf) (fst jf) (parse_front_matter (fst m))
                          (read_images (snd jf)))))"

definition scan_albums :: "state \<Rightarrow> album list" where
  "scan_albums s =
     List.map_filter (read_album (posts s))
       (filter (\<lambda>jf. endsWith (fst jf) ''.json'' \<and> \<not> startsWith (fst jf) ''_'') (data s))"

subsection \<open>The manual order and the sort\<close>

text \<open>\<^verbatim>\<open>getAlbumOrder\<close>: the array of the order file without its \<^verbatim>\<open>null\<close>
  members; empty when the file is missing, is no JSON, or holds no array.\<close>

definition getAlbumOrder :: "state \<Rightarrow> json list" where
  "getAlbumOrder s =
     (case map_of (data s) ''_album-order.json'' of
        Some (Some (JArr order)) \<Rightarrow> filter (\<lambda>slg. slg \<noteq> JNull) order
      | _ \<Rightarrow> [])"

text \<open>\<^verbatim>\<open>xs.indexOf(x)\<close>: the first position of \<open>x\<close>, or \<open>-1\<close>.\<close>

fun indexOf :: "'a list \<Rightarrow> 'a \<Rightarrow> int" where
  "indexOf [] x = - 1"
| "indexOf (y # ys) x = (if y = x then 0 else (let i = indexOf ys x in if i < 0 then - 1 else i + 1))"

text \<open>The comparators. \<^verbatim>\<open>new Date(b.date) - new Date(a.date)\<close> is \<^verbatim>\<open>NaN\<close>
  (\<open>None\<close>) when one of the dates does not parse.\<close>

definition date_cmp :: "env \<Rightarrow> album \<Rightarrow> album \<Rightarrow> int option" where
  "date_cmp e a b =
     (case (parseDate e (fm_string (date b)), parseDate e (fm_string (date a))) of
        (Some tb, Some ta) \<Rightarrow> Some (tb - ta)
      | _ \<Rightarrow> None)"

definition order_cmp :: "env \<Rightarrow> json list \<Rightarrow> album \<Rightarrow> album \<Rightarrow> int option" where
  "order_cmp e order a b =
     (let aIndex = indexOf order (JStr (slug a));
          bIndex = indexOf order (JStr (slug b))
      in if aIndex \<ge> 0 \<and> bIndex \<ge> 0 then Some (aIndex - bIndex)
         else if aIndex \<ge> 0 then Some (- 1)
         else if bIndex \<ge> 0 then Some 1
         else date_cmp e a b)"

text \<open>\<^verbatim>\<open>Array.prototype.sort\<close> with a comparator. The language asks for a stable
  sort, and for a consistent comparator every stable sort returns the same array; the model is
  the insertion sort. An element stays before another when the comparator gives a number that
  is not positive, \<^verbatim>\<open>NaN\<close> counting as \<open>0\<close>. For a comparator that is not
  consistent the language leaves the order to the implementation; the dates of the albums give
  such a comparator when one of them does not parse.\<close>

definition not_after :: "('a \<Rightarrow> 'a \<Rightarrow> int option) \<Rightarrow> 'a \<Rightarrow> 'a \<Rightarrow> bool" where
  "not_after cmp x y = (case cmp x y of None \<Rightarrow> True | Some n \<Rightarrow> n \<le> 0)"

fun insert_sorted :: "('a \<Rightarrow> 'a \<Rightarrow> int option) \<Rightarrow> 'a \<Rightarrow> 'a list \<Rightarrow> 'a list" where
  "insert_sorted cmp x [] = [x]"
| "insert_sorted cmp x (y # ys) =
     (if not_after cmp x y then x # y # ys else y # insert_sorted cmp x ys)"

definition js_sort :: "('a \<Rightarrow> 'a \<Rightarrow> int option) \<Rightarrow> 'a list \<Rightarrow> 'a list" where
  "js_sort cmp xs = foldr (insert_sorted cmp) xs []"

definition sort_albums :: "env \<Rightarrow> json list \<Rightarrow> album list \<Rightarrow> album list" where
  "sort_albums e order albums =
     (if length order > 0 then js_sort (order_cmp e order) albums
      else js_sort (date_cmp e) albums)"

definition getAlbums :: "env \<Rightarrow> state \<Rightarrow> album list" where
  "getAlbums e s = sort_albums e (getAlbumOrder s) (scan_albums s)"

definition getAlbum :: "env \<Rightarrow> state \<Rightarrow> string \<Rightarrow> album option" where
  "getAlbum e s slg = find (\<lambda>a. slug a = slg) (getAlbums e s)"

section \<open>Writing a post file\<close>

text \<open>The argument of \<^verbatim>\<open>generatePostMarkdown\<close>. \<open>None\<close> is a member that is
  \<^verbatim>\<open>undefined\<close> and, for a number, also \<^verbatim>\<open>NaN\<close>.\<close>

record post_data =
  data_title :: "fmval option"
  data_description :: "fmval option"
  data_developer :: "fmval option"
  data_date :: "fmval option"
  data_tags :: "string list option"
  data_slug :: string
  data_cardImage :: "int option"
  data_cardOffset :: "int option"
  data_cardOffsetX :: "int option"
  data_cardZoom :: "int option"
  data_bannerImage :: "int option"
  data_bannerOffset :: "int option"
  data_bannerOffsetX :: "int option"
  data_bannerZoom :: "int option"

text \<open>A quoted string member: a falsy value gives the default text; a string is put
  between double quotes with its double quotes escaped; an array has no
  \<^verbatim>\<open>replace\<close>, and the call throws (\<open>None\<close>).\<close>

definition quoted :: "fmval option \<Rightarrow> string \<Rightarrow> string option" where
  "quoted v dflt =
     (case v of
        None \<Rightarrow> Some dflt
      | Some (FStr s) \<Rightarrow> if s = [] then Some dflt else Some ([DQUOTE] @ escape_quotes s @ [DQUOTE])
      | Some (FArr xs) \<Rightarrow> None)"

definition tagsLine :: "string list option \<Rightarrow> string" where
  "tagsLine ts =
     (let tagsArray = (case ts of None \<Rightarrow> [] | Some xs \<Rightarrow> xs)
      in if length tagsArray > 0 then ''tags: ['' @ join '', '' tagsArray @ '']'' else ''tags: []'')"

definition generatePostMarkdown :: "env \<Rightarrow> post_data \<Rightarrow> string option" where
  "generatePostMarkdown e d =
     (let dat = fm_string (fm_or (data_date d) (FStr (today e)))
      in case quoted (data_title d) [DQUOTE, DQUOTE] of
           None \<Rightarrow> None
         | Some ttl \<Rightarrow>
        (case quoted (data_description d) ([DQUOTE] @ ''Virtual Photography'' @ [DQUOTE]) of
           None \<Rightarrow> None
         | Some dsc \<Rightarrow>
        (case quoted (data_developer d) [DQUOTE, DQUOTE] of
           None \<Rightarrow> None
         | Some dev \<Rightarrow>
             Some (join [LF]
               [''---'',
                ''layout: post'',
                ''date: '' @ dat,
                ''title: '' @ ttl,
                ''description: '' @ dsc,
                ''developer: '' @ dev,
                ''categories: [virtual-photography]'',
                tagsLine (data_tags d),
                ''slug: '' @ data_slug d,
                ''card-image: '' @ show_int (num_or (data_cardImage d) 0),
                ''card-offset: '' @ show_int (num_or (data_cardOffset d) 50),
                ''card-offset-x: '' @ show_int (num_or (data_cardOffsetX d) 50),
                ''card-zoom: '' @ show_int (num_or (data_cardZoom d) 100),
                ''banner-image: '' @ show_int (num_or (data_bannerImage d) 0),
                ''banner-offset: '' @ show_int (num_or (data_bannerOffset d) 50),
                ''banner-offset-x: '' @ show_int (num_or (data_bannerOffsetX d) 50),
                ''banner-zoom: '' @ show_int (num_or (data_bannerZoom d) 100),
                ''---'']))))"

section \<open>The routes\<close>

text \<open>A response is the success message, or the status of the failure: 400 and 404 with
  the message of the route, 500 with the message of whatever was thrown.\<close>

datatype response = Success string | Fail400 string | Fail404 string | Fail500

subsection \<open>Processing uploaded files\<close>

record req_file =
  buffer :: buffer
  mimetype :: string

text \<open>\<^verbatim>\<open>Math.round((width / height) * 10000) / 10000\<close>, in exact arithmetic. With
  a height of \<open>0\<close> the quotient is no finite number, which \<^verbatim>\<open>JSON.stringify\<close>
  writes as \<^verbatim>\<open>null\<close>.\<close>

definition aspect_ratio :: "nat \<Rightarrow> nat \<Rightarrow> json" where
  "aspect_ratio w h =
     (if h = 0 then JNull
      else JNum (of_int \<lfloor>(of_nat w / of_nat h) * 10000 + 1 / 2 :: rat\<rfloor> / 10000))"

definition imgNum :: "nat \<Rightarrow> string" where
  "imgNum i = padStart3 (show_nat i)"

definition originalFileName :: "string \<Rightarrow> nat \<Rightarrow> string" where
  "originalFileName slg i = slg @ ''/img'' @ imgNum i @ ''.jpg''"

definition thumbFileName :: "string \<Rightarrow> nat \<Rightarrow> string" where
  "thumbFileName slg i = slg @ ''/thumb/img'' @ imgNum i @ ''.webp''"

text \<open>The object pushed to \<^verbatim>\<open>images\<close> for file number \<open>i\<close> of width
  \<open>w\<close> and height \<open>h\<close>.\<close>

definition image_descriptor :: "b2Config \<Rightarrow> string \<Rightarrow> nat \<Rightarrow> nat \<Rightarrow> nat \<Rightarrow> json" where
  "image_descriptor cfg slg i w h =
     JObj [(''url'', JStr (getCdnUrl cfg (originalFileName slg i))),
           (''thumb'', JStr (getCdnUrl cfg (thumbFileName slg i))),
           (''aspectRatio'', aspect_ratio w h),
           (''width'', JNum (of_nat w)),
           (''height'', JNum (of_nat h))]"

text \<open>One round of the loop over \<^verbatim>\<open>req.files\<close>: the descriptor of the file and the
  list of storage calls, or \<open>None\<close> where a call throws. A call to the storage service is
  logged when it is made, also when it fails.\<close>

definition process_file ::
  "env \<Rightarrow> string \<Rightarrow> nat \<Rightarrow> req_file \<Rightarrow> call list \<Rightarrow> json option \<times> call list" where
  "process_file e slg i f calls =
     (case metadata e (buffer f) of
        None \<Rightarrow> (None, calls)
      | Some (w, h) \<Rightarrow>
     (case (if mimetype f \<noteq> ''image/jpeg'' then toJpeg e (buffer f) else Some (buffer f)) of
        None \<Rightarrow> (None, calls)
      | Some originalBuffer \<Rightarrow>
          (let calls1 = calls @ [Upload (originalFileName slg i) originalBuffer ''image/jpeg'']
           in if \<not> uploadToB2 e (originalFileName slg i) originalBuffer ''image/jpeg''
              then (None, calls1)
              else (case toThumbnail e (buffer f) of
                      None \<Rightarrow> (None, calls1)
                    | Some thumbBuffer \<Rightarrow>
                        (let calls2 = calls1 @ [Upload (thumbFileName slg i) thumbBuffer ''image/webp'']
                         in if \<not> uploadToB2 e (thumbFileName slg i) thumbBuffer ''image/webp''
                            then (None, calls2)
                            else (Some (image_descriptor (config e) slg i w h), calls2))))))"

text \<open>The loop, from file number \<open>i\<close> on, with the descriptors pushed so far.\<close>

fun process_files ::
  "env \<Rightarrow> string \<Rightarrow> nat \<Rightarrow> req_file list \<Rightarrow> json list \<Rightarrow> call list \<Rightarrow> json list option \<times> call list" where
  "process_files e slg i [] imgs calls = (Some imgs, calls)"
| "process_files e slg i (f # fs) imgs calls =
     (case process_file e slg i f calls of
        (None, calls') \<Rightarrow> (None, calls')
      | (Some img, calls') \<Rightarrow> process_files e slg (Suc i) fs (imgs @ [img]) calls')"

text \<open>Every call made for file number \<open>i\<close> succeeds: decoding, re-encoding to JPEG
  where the file is no JPEG, making the thumbnail, and the two uploads.\<close>

definition file_ok :: "env \<Rightarrow> string \<Rightarrow> nat \<Rightarrow> req_file \<Rightarrow> bool" where
  "file_ok e slg i f \<longleftrightarrow>
     metadata e (buffer f) \<noteq> None
     \<and> (case (if mimetype f \<noteq> ''image/jpeg'' then toJpeg e (buffer f) else Some (buffer f)) of
          None \<Rightarrow> False
        | Some originalBuffer \<Rightarrow> uploadToB2 e (originalFileName slg i) originalBuffer ''image/jpeg'')
     \<and> (case toThumbnail e (buffer f) of
          None \<Rightarrow> False
        | Some thumbBuffer \<Rightarrow> uploadToB2 e (thumbFileName slg i) thumbBuffer ''image/webp'')"

subsection \<open>POST /upload/create\<close>

text \<open>The text members of the form; \<open>None\<close> is a member that was not sent.\<close>

record create_request =
  create_title :: "string option"
  create_developer :: "string option"
  create_description :: "string option"
  create_date :: "string option"
  create_files :: "req_file list"

definition str_or :: "string option \<Rightarrow> string \<Rightarrow> string" where
  "str_or v d = (case v of None \<Rightarrow> d | Some s \<Rightarrow> if s = [] then d else s)"

definition created_message :: "string \<Rightarrow> nat \<Rightarrow> string" where
  "created_message ttl n =
     ''Album '' @ [DQUOTE] @ ttl @ [DQUOTE] @ '' created with '' @ show_nat n @ '' images''"

text \<open>Without a title \<^verbatim>\<open>slugify\<close> throws. The descriptor is written before the
  post file is generated.\<close>

definition createAlbum :: "env \<Rightarrow> create_request \<Rightarrow> state \<Rightarrow> response \<times> state" where
  "createAlbum e req s =
     (case create_title req of
        None \<Rightarrow> (Fail500, s)
      | Some ttl \<Rightarrow>
          (let slg = createSlug e ttl;
               actualDate = str_or (create_date req) (today e);
               jsonPath = slg @ ''.json''
           in if existsSync (data s) jsonPath
              then (Fail400 ''Album with this name already exists'', s)
              else (case process_files e slg 0 (create_files req) [] (remote s) of
                      (None, calls) \<Rightarrow> (Fail500, s\<lparr>remote := calls\<rparr>)
                    | (Some imgs, calls) \<Rightarrow>
                        (let s1 = s\<lparr>remote := calls,
                                     data := writeFileSync jsonPath (Some (JArr imgs)) (data s)\<rparr>
                         in case generatePostMarkdown e
                                   \<lparr> data_title = Some (FStr ttl),
                                     data_description = map_option FStr (create_description req),
                                     data_developer = map_option FStr (create_developer req),
                                     data_date = Some (FStr actualDate),
                                     data_tags = None,
                                     data_slug = slg,
                                     data_cardImage = Some 0,
                                     data_cardOffset = Some 50,
                                     data_cardOffsetX = Some 50,
                                     data_cardZoom = Some 100,
                                     data_bannerImage = Some 0,
                                     data_bannerOffset = Some 50,
                                     data_bannerOffsetX = Some 50,
                                     data_bannerZoom = Some 100 \<rparr> of
                              None \<Rightarrow> (Fail500, s1)
                            | Some postContent \<Rightarrow>
                                (Success (created_message ttl (length imgs)),
                                 s1\<lparr>posts :=
                                      writeFileSync (actualDate @ ''-'' @ slg @ ''.md'') postContent
                                        (posts s1)\<rparr>)))))"

subsection \<open>POST /upload/update/:slug\<close>

text \<open>The members of the request body that the route reads; \<open>None\<close> is a member that
  is \<^verbatim>\<open>undefined\<close>. The text members are strings, the numbers are given in their
  text form, which is what \<^verbatim>\<open>parseInt\<close> reads, and the tags are a string, an
  array of strings, or something else.\<close>

datatype req_tags = TagsString string | TagsArray "string list" | TagsOther

record update_request =
  upd_title :: "string option"
  upd_description :: "string option"
  upd_developer :: "string option"
  upd_date :: "string option"
  upd_tags :: "req_tags option"
  upd_cardImage :: "string option"
  upd_cardOffset :: "string option"
  upd_cardOffsetX :: "string option"
  upd_cardZoom :: "string option"
  upd_bannerImage :: "string option"
  upd_bannerOffset :: "string option"
  upd_bannerOffsetX :: "string option"
  upd_bannerZoom :: "string option"

definition parsedTags :: "req_tags option \<Rightarrow> string list \<Rightarrow> string list" where
  "parsedTags ts albumTags =
     (case ts of
        Some (TagsString t) \<Rightarrow> filter (\<lambda>t. t \<noteq> []) (map trim (split_on CHR '','' t))
      | Some (TagsArray xs) \<Rightarrow> xs
      | _ \<Rightarrow> albumTags)"

text \<open>\<^verbatim>\<open>v || old\<close> and \<^verbatim>\<open>v !== undefined ? v : old\<close> on a text member, and
  \<^verbatim>\<open>v !== undefined ? parseInt(v) : old\<close> on a number.\<close>

definition truthy_or :: "string option \<Rightarrow> fmval \<Rightarrow> fmval" where
  "truthy_or v old = (case v of None \<Rightarrow> old | Some s \<Rightarrow> if s = [] then old else FStr s)"

definition defined_or :: "string option \<Rightarrow> fmval \<Rightarrow> fmval" where
  "defined_or v old = (case v of None \<Rightarrow> old | Some s \<Rightarrow> FStr s)"

definition parsed_or :: "string option \<Rightarrow> int \<Rightarrow> int option" where
  "parsed_or v old = (case v of None \<Rightarrow> Some old | Some s \<Rightarrow> parseInt s)"

text \<open>The date of the request when it is given and differs from the date of the album:
  the condition under which the post file is renamed.\<close>

definition changed_date :: "string option \<Rightarrow> fmval \<Rightarrow> string option" where
  "changed_date v old =
     (case v of None \<Rightarrow> None | Some d \<Rightarrow> if d \<noteq> [] \<and> FStr d \<noteq> old then Some d else None)"

definition merged_data :: "album \<Rightarrow> update_request \<Rightarrow> post_data" where
  "merged_data album req =
     \<lparr> data_title = Some (truthy_or (upd_title req) (title album)),
       data_description = Some (defined_or (upd_description req) (description album)),
       data_developer = Some (defined_or (upd_developer req) (developer album)),
       data_date = Some (truthy_or (upd_date req) (date album)),
       data_tags = Some (parsedTags (upd_tags req) (tags album)),
       data_slug = slug album,
       data_cardImage = parsed_or (upd_cardImage req) (cardImage album),
       data_cardOffset = parsed_or (upd_cardOffset req) (cardOffset album),
       data_cardOffsetX = parsed_or (upd_cardOffsetX req) (cardOffsetX album),
       data_cardZoom = parsed_or (upd_cardZoom req) (cardZoom album),
       data_bannerImage = parsed_or (upd_bannerImage req) (bannerImage album),
       data_bannerOffset = parsed_or (upd_bannerOffset req) (bannerOffset album),
       data_bannerOffsetX = parsed_or (upd_bannerOffsetX req) (bannerOffsetX album),
       data_bannerZoom = parsed_or (upd_bannerZoom req) (bannerZoom album) \<rparr>"

definition updateAlbum :: "env \<Rightarrow> string \<Rightarrow> update_request \<Rightarrow> state \<Rightarrow> response \<times> state" where
  "updateAlbum e slg req s =
     (case getAlbum e s slg of
        None \<Rightarrow> (Fail404 ''Album not found'', s)
      | Some album \<Rightarrow>
          (let oldPostPath = postFile album;
               newPostPath =
                 (case changed_date (upd_date req) (date album) of
                    None \<Rightarrow> oldPostPath
                  | Some d \<Rightarrow> d @ ''-'' @ slug album @ ''.md'');
               posts1 =
                 (if changed_date (upd_date req) (date album) \<noteq> None \<and> existsSync (posts s) oldPostPath
                  then renameSync oldPostPath newPostPath (posts s) else posts s)
           in case generatePostMarkdown e (merged_data album req) of
                None \<Rightarrow> (Fail500, s\<lparr>posts := posts1\<rparr>)
              | Some postContent \<Rightarrow>
                  (Success ''Album updated'',
                   s\<lparr>posts := writeFileSync newPostPath postContent posts1\<rparr>)))"

subsection \<open>Writing a descriptor back\<close>

text \<open>\<^verbatim>\<open>JSON.stringify\<close> of an image of the album: a number that is not finite is
  written as \<^verbatim>\<open>null\<close>.\<close>

fun num_json :: "jsnum \<Rightarrow> json" where
  "num_json (Num n) = JNum n"
| "num_json _ = JNull"

definition image_json :: "image \<Rightarrow> json" where
  "image_json img =
     JObj [(''url'', url img), (''thumb'', thumb img), (''aspectRatio'', num_json (aspectRatio img)),
           (''width'', width img), (''height'', height img)]"

subsection \<open>POST /upload/delete-image/:slug/:index\<close>

text \<open>\<^verbatim>\<open>path.split('/').slice(-n).join('/')\<close>: the last \<open>n\<close> segments.\<close>

definition last_segments :: "nat \<Rightarrow> string \<Rightarrow> string" where
  "last_segments n path =
     (let segs = split_on CHR ''/'' path in join ''/'' (drop (length segs - n) segs))"

text \<open>The inner \<^verbatim>\<open>try\<close> block: the thumbnail is deleted only when deleting the
  original did not throw, and what is thrown is dropped.\<close>

definition delete_remote :: "env \<Rightarrow> string \<Rightarrow> string \<Rightarrow> call list \<Rightarrow> call list" where
  "delete_remote e originalFile thumbFile calls =
     (if deleteFromB2 e originalFile then calls @ [Delete originalFile, Delete thumbFile]
      else calls @ [Delete originalFile])"

text \<open>\<^verbatim>\<open>images.filter((_, i) => i !== index)\<close>.\<close>

definition remove_at :: "nat \<Rightarrow> 'a list \<Rightarrow> 'a list" where
  "remove_at k xs = take k xs @ drop (Suc k) xs"

text \<open>The index is the text of the route parameter. When it is no number, both comparisons
  of the range check are false, \<^verbatim>\<open>album.images[NaN]\<close> is \<^verbatim>\<open>undefined\<close>
  and reading its \<^verbatim>\<open>url\<close> throws. The two \<^verbatim>\<open>new URL\<close> calls stand
  outside the inner \<^verbatim>\<open>try\<close>.\<close>

definition deleteImage :: "env \<Rightarrow> string \<Rightarrow> string \<Rightarrow> state \<Rightarrow> response \<times> state" where
  "deleteImage e slg index s =
     (case getAlbum e s slg of
        None \<Rightarrow> (Fail404 ''Album not found'', s)
      | Some album \<Rightarrow>
          (case parseInt index of
             None \<Rightarrow> (Fail500, s)
           | Some k \<Rightarrow>
               if k < 0 \<or> k \<ge> int (length (images album))
               then (Fail400 ''Invalid image index'', s)
               else (let img = images album ! nat k
                     in case pathname e (url img) of
                          None \<Rightarrow> (Fail500, s)
                        | Some urlPath \<Rightarrow>
                            (case pathname e (thumb img) of
                               None \<Rightarrow> (Fail500, s)
                             | Some thumbPath \<Rightarrow>
                                 (Success ''Image deleted'',
                                  s\<lparr>remote := delete_remote e (last_segments 2 urlPath)
                                                 (last_segments 3 thumbPath) (remote s),
                                    data := writeFileSync (jsonFile album)
                                              (Some (JArr (map image_json
                                                 (remove_at (nat k) (images album)))))
                                              (data s)\<rparr>)))))"

subsection \<open>POST /upload/reorder/:slug\<close>

text \<open>The member \<^verbatim>\<open>order\<close> of the body: \<open>None\<close> when it is no array, else its
  members, which are whole numbers. \<^verbatim>\<open>album.images[i]\<close> out of range is
  \<^verbatim>\<open>undefined\<close>, written as \<^verbatim>\<open>null\<close>.\<close>

definition image_at :: "image list \<Rightarrow> int \<Rightarrow> json" where
  "image_at imgs i = (if 0 \<le> i \<and> i < int (length imgs) then image_json (imgs ! nat i) else JNull)"

definition reorderImages :: "env \<Rightarrow> string \<Rightarrow> int list option \<Rightarrow> state \<Rightarrow> response \<times> state" where
  "reorderImages e slg order s =
     (case getAlbum e s slg of
        None \<Rightarrow> (Fail404 ''Album not found'', s)
      | Some album \<Rightarrow>
          (case order of
             None \<Rightarrow> (Fail400 ''Invalid order array'', s)
           | Some ord \<Rightarrow>
               (Success ''Images reordered'',
                s\<lparr>data := writeFileSync (jsonFile album)
                             (Some (JArr (map (image_at (images album)) ord))) (data s)\<rparr>)))"

section \<open>Example data\<close>

subsection \<open>An environment\<close>

text \<open>A configuration without CDN, a slug function that keeps word characters and turns
  spaces into hyphens, a date parser that knows three days (as milliseconds since 1970), a URL
  parser that accepts what starts with \<^verbatim>\<open>https://\<close>, an image library that
  rejects the buffer \<^verbatim>\<open>broken\<close>, and a storage service that refuses the third
  image of an album.\<close>

definition example_slug :: "string \<Rightarrow> string" where
  "example_slug t =
     map (\<lambda>c. if c = CHR '' '' then CHR ''-'' else c) (filter (\<lambda>c. is_word c \<or> c = CHR '' '') t)"

definition example_parseDate :: "string \<Rightarrow> int option" where
  "example_parseDate s =
     (if s = ''2020-01-01'' then Some 1577836800000
      else if s = ''2019-01-01'' then Some 1546300800000
      else if s = ''2024-05-01'' then Some 1714521600000
      else None)"

definition example_pathname :: "json \<Rightarrow> string option" where
  "example_pathname v =
     (case v of
        JStr s \<Rightarrow>
          if startsWith s ''https://'' then Some (dropWhile (\<lambda>c. c \<noteq> CHR ''/'') (drop 8 s))
          else None
      | _ \<Rightarrow> None)"

definition example_env :: env where
  "example_env =
     \<lparr> config = \<lparr> use_cdn = False, cdn_domain = [], bucket_name = ''photos'' \<rparr>,
       createSlug = example_slug,
       today = ''2024-05-01'',
       parseDate = example_parseDate,
       pathname = example_pathname,
       metadata = (\<lambda>b. if b = ''broken'' then None else Some (1920, 1080)),
       toJpeg = Some,
       toThumbnail = Some,
       uploadToB2 = (\<lambda>name b ct. \<not> endsWith name ''img002.jpg''),
       deleteFromB2 = (\<lambda>name. True) \<rparr>"

definition empty_state :: state where
  "empty_state = \<lparr> posts = [], data = [], remote = [] \<rparr>"

subsection \<open>Notions for the sort order\<close>

text \<open>The place of an album in the manual order, whether it has one, its date as a time
  stamp, and whether its date parses.\<close>

definition order_index :: "json list \<Rightarrow> album \<Rightarrow> int" where
  "order_index order a = indexOf order (JStr (slug a))"

definition in_order :: "json list \<Rightarrow> album \<Rightarrow> bool" where
  "in_order order a \<longleftrightarrow> order_index order a \<ge> 0"

definition has_date :: "env \<Rightarrow> album \<Rightarrow> bool" where
  "has_date e a \<longleftrightarrow> parseDate e (fm_string (date a)) \<noteq> None"

definition timestamp :: "env \<Rightarrow> album \<Rightarrow> int" where
  "timestamp e a = (case parseDate e (fm_string (date a)) of None \<Rightarrow> 0 | Some t \<Rightarrow> t)"

subsection \<open>Legacy descriptors\<close>

definition legacy_entry :: json where
  "legacy_entry =
     JObj [(''imageFull-link'', JStr ''https://cdn.example.com/a/full.jpg''),
           (''thumbnail-link'', JStr ''https://cdn.example.com/a/small.jpg''),
           (''aspect-ratio'', JStr ''1.7778'')]"

definition legacy_entry_no_ratio :: json where
  "legacy_entry_no_ratio =
     JObj [(''imageFull-link'', JStr ''https://cdn.example.com/a/full.jpg''),
           (''thumbnail-link'', JStr ''https://cdn.example.com/a/small.jpg'')]"

subsection \<open>Requests to create an album\<close>

definition two_files_request :: create_request where
  "two_files_request =
     \<lparr> create_title = Some ''night city'',
       create_developer = Some ''cdpr'',
       create_description = None,
       create_date = Some ''2020-01-01'',
       create_files = [\<lparr> buffer = ''aaa'', mimetype = ''image/jpeg'' \<rparr>,
                       \<lparr> buffer = ''bbb'', mimetype = ''image/png'' \<rparr>] \<rparr>"

definition three_files_request :: create_request where
  "three_files_request =
     \<lparr> create_title = Some ''night city'',
       create_developer = Some ''cdpr'',
       create_description = None,
       create_date = Some ''2020-01-01'',
       create_files = [\<lparr> buffer = ''aaa'', mimetype = ''image/jpeg'' \<rparr>,
                       \<lparr> buffer = ''bbb'', mimetype = ''image/png'' \<rparr>,
                       \<lparr> buffer = ''ccc'', mimetype = ''image/jpeg'' \<rparr>] \<rparr>"

text \<open>A state in which the album of that title exists already.\<close>

definition existing_state :: state where
  "existing_state =
     \<lparr> posts = [(''2019-01-01-night-city.md'', ''---'' @ [LF] @ ''title: old'' @ [LF] @ ''---'')],
       data = [(''night-city.json'', Some (JArr []))],
       remote = [] \<rparr>"

subsection \<open>Two albums and a manual order\<close>

text \<open>Album \<open>a\<close> of 2020 and album \<open>b\<close> of 2019, without and with the manual order
  \<open>b, a\<close>.\<close>

definition two_albums_state :: state where
  "two_albums_state =
     \<lparr> posts = [(''2020-01-01-a.md'', ''---'' @ [LF] @ ''date: 2020-01-01'' @ [LF] @ ''---''),
                 (''2019-01-01-b.md'', ''---'' @ [LF] @ ''date: 2019-01-01'' @ [LF] @ ''---'')],
       data = [(''b.json'', Some (JArr [])), (''a.json'', Some (JArr []))],
       remote = [] \<rparr>"

definition ordered_albums_state :: state where
  "ordered_albums_state =
     two_albums_state
       \<lparr> data := data two_albums_state @ [(''_album-order.json'', Some (JArr [JStr ''b'', JStr ''a'']))] \<rparr>"

definition album_a :: album where
  "album_a = make_album ''a'' ''2020-01-01-a.md'' ''a.json'' [(''date'', FStr ''2020-01-01'')] []"

definition album_b :: album where
  "album_b = make_album ''b'' ''2019-01-01-b.md'' ''b.json'' [(''date'', FStr ''2019-01-01'')] []"

text \<open>Four albums whose descriptors are listed as \<open>d, a, c, b\<close>: \<open>a\<close> and \<open>d\<close> of
  2020, \<open>b\<close> of 2019 and \<open>c\<close> of 2024, without and with the manual order \<open>b, a\<close>.\<close>

definition four_albums_state :: state where
  "four_albums_state =
     \<lparr> posts = [(''2020-01-01-a.md'', ''---'' @ [LF] @ ''date: 2020-01-01'' @ [LF] @ ''---''),
                 (''2019-01-01-b.md'', ''---'' @ [LF] @ ''date: 2019-01-01'' @ [LF] @ ''---''),
                 (''2024-05-01-c.md'', ''---'' @ [LF] @ ''date: 2024-05-01'' @ [LF] @ ''---''),
                 (''2020-01-01-d.md'', ''---'' @ [LF] @ ''date: 2020-01-01'' @ [LF] @ ''---'')],
       data = [(''d.json'', Some (JArr [])), (''a.json'', Some (JArr [])),
               (''c.json'', Some (JArr [])), (''b.json'', Some (JArr []))],
       remote = [] \<rparr>"

definition four_ordered_state :: state where
  "four_ordered_state =
     four_albums_state
       \<lparr> data := data four_albums_state @ [(''_album-order.json'', Some (JArr [JStr ''b'', JStr ''a'']))] \<rparr>"

definition album_c :: album where
  "album_c = make_album ''c'' ''2024-05-01-c.md'' ''c.json'' [(''date'', FStr ''2024-05-01'')] []"

definition album_d :: album where
  "album_d = make_album ''d'' ''2020-01-01-d.md'' ''d.json'' [(''date'', FStr ''2020-01-01'')] []"



subsection \<open>An album with a legacy entry\<close>

text \<open>Three images; the first is an entry of the legacy scheme whose links are paths, not
  absolute URLs.\<close>

definition shots_entries :: "json list" where
  "shots_entries =
     [JObj [(''imageFull-link'', JStr ''/assets/shots/one.jpg''),
            (''thumbnail-link'', JStr ''/assets/shots/one-small.jpg''),
            (''aspect-ratio'', JNum (3 / 2))],
      JObj [(''url'', JStr ''https://cdn.example.com/shots/img001.jpg''),
            (''thumb'', JStr ''https://cdn.example.com/shots/thumb/img001.webp''),
            (''aspectRatio'', JNum (16 / 9)), (''width'', JNum 1920), (''height'', JNum 1080)],
      JObj [(''url'', JStr ''https://cdn.example.com/shots/img002.jpg''),
            (''thumb'', JStr ''https://cdn.example.com/shots/thumb/img002.webp''),
            (''aspectRatio'', JNum (4 / 3)), (''width'', JNum 1600), (''height'', JNum 1200)]]"

definition shots_images :: "image list" where
  "shots_images =
     [\<lparr> url = JStr ''/assets/shots/one.jpg'', thumb = JStr ''/assets/shots/one-small.jpg'',
        aspectRatio = Num (3 / 2), width = JNum 0, height = JNum 0 \<rparr>,
      \<lparr> url = JStr ''https://cdn.example.com/shots/img001.jpg'',
        thumb = JStr ''https://cdn.example.com/shots/thumb/img001.webp'',
        aspectRatio = Num (16 / 9), width = JNum 1920, height = JNum 1080 \<rparr>,
      \<lparr> url = JStr ''https://cdn.example.com/shots/img002.jpg'',
        thumb = JStr ''https://cdn.example.com/shots/thumb/img002.webp'',
        aspectRatio = Num (4 / 3), width = JNum 1600, height = JNum 1200 \<rparr>]"

definition shots_state :: state where
  "shots_state =
     \<lparr> posts = [(''2020-01-01-shots.md'',
                  ''---'' @ [LF] @ ''title: Shots'' @ [LF] @ ''date: 2020-01-01'' @ [LF] @ ''---'')],
       data = [(''shots.json'', Some (JArr shots_entries))],
       remote = [] \<rparr>"

definition shots_album :: album where
  "shots_album =
     make_album ''shots'' ''2020-01-01-shots.md'' ''shots.json''
       [(''date'', FStr ''2020-01-01''), (''title'', FStr ''Shots'')] shots_images"

subsection \<open>Updating the description only\<close>

definition only_description :: update_request where
  "only_description =
     \<lparr> upd_title = None, upd_description = Some ''X'', upd_developer = None, upd_date = None,
       upd_tags = None, upd_cardImage = None, upd_cardOffset = None, upd_cardOffsetX = None,
       upd_cardZoom = None, upd_bannerImage = None, upd_bannerOffset = None,
       upd_bannerOffsetX = None, upd_bannerZoom = None \<rparr>"

text \<open>The post file that \<^verbatim>\<open>generatePostMarkdown\<close> writes for an album of
  2020-01-01 with the default layout, no developer and no tags, given its slug and its
  title and description as they stand in the file.\<close>

definition post_text :: "string \<Rightarrow> string \<Rightarrow> string \<Rightarrow> string" where
  "post_text slg ttl dsc =
     join [LF]
       [''---'',
        ''layout: post'',
        ''date: 2020-01-01'',
        ''title: '' @ ttl,
        ''description: '' @ dsc,
        ''developer: '' @ [DQUOTE, DQUOTE],
        ''categories: [virtual-photography]'',
        ''tags: []'',
        ''slug: '' @ slg,
        ''card-image: 0'',
        ''card-offset: 50'',
        ''card-offset-x: 50'',
        ''card-zoom: 100'',
        ''banner-image: 0'',
        ''banner-offset: 50'',
        ''banner-offset-x: 50'',
        ''banner-zoom: 100'',
        ''---'']"

text \<open>An album whose title holds double quotes, \<^verbatim>\<open>say "hi"\<close>: the request that
  creates it, the state after its creation, and the state after the update of its
  description.\<close>

definition quote_request :: create_request where
  "quote_request =
     \<lparr> create_title = Some (''say '' @ [DQUOTE] @ ''hi'' @ [DQUOTE]),
       create_developer = None,
       create_description = None,
       create_date = Some ''2020-01-01'',
       create_files = [] \<rparr>"

definition quote_state :: state where
  "quote_state =
     \<lparr> posts = [(''2020-01-01-say-hi.md'',
                  post_text ''say-hi''
                    ([DQUOTE] @ ''say '' @ [BSLASH, DQUOTE] @ ''hi'' @ [BSLASH, DQUOTE] @ [DQUOTE])
                    ([DQUOTE] @ ''Virtual Photography'' @ [DQUOTE]))],
       data = [(''say-hi.json'', Some (JArr []))],
       remote = [] \<rparr>"

definition quote_state_updated :: state where
  "quote_state_updated =
     \<lparr> posts = [(''2020-01-01-say-hi.md'',
                  post_text ''say-hi''
                    ([DQUOTE] @ ''say '' @ [BSLASH, BSLASH, DQUOTE] @ ''hi'' @ [BSLASH, BSLASH, DQUOTE]
                       @ [DQUOTE])
                    ([DQUOTE] @ ''X'' @ [DQUOTE]))],
       data = [(''say-hi.json'', Some (JArr []))],
       remote = [] \<rparr>"

text \<open>The front matter of such a post file as \<^verbatim>\<open>getAlbums\<close> parses it, given the
  title and the description that it reads.\<close>

definition post_front_matter :: "string \<Rightarrow> fmval \<Rightarrow> fmval \<Rightarrow> frontMatter" where
  "post_front_matter slg ttl dsc =
     [(''banner-zoom'', FStr ''100''),
      (''banner-offset-x'', FStr ''50''),
      (''banner-offset'', FStr ''50''),
      (''banner-image'', FStr ''0''),
      (''card-zoom'', FStr ''100''),
      (''card-offset-x'', FStr ''50''),
      (''card-offset'', FStr ''50''),
      (''card-image'', FStr ''0''),
      (''slug'', FStr slg),
      (''tags'', FArr [[]]),
      (''categories'', FArr [''virtual-photography'']),
      (''developer'', FStr []),
      (''description'', dsc),
      (''title'', ttl),
      (''date'', FStr ''2020-01-01''),
      (''layout'', FStr ''post'')]"

subsection \<open>An album with a Markdown body\<close>

text \<open>\<^verbatim>\<open>s.includes(p)\<close>.\<close>

fun contains :: "string \<Rightarrow> string \<Rightarrow> bool" where
  "contains [] p = (p = [])"
| "contains (c # cs) p = (startsWith (c # cs) p \<or> contains cs p)"

definition notes_state :: state where
  "notes_state =
     \<lparr> posts = [(''2020-01-01-notes.md'',
                  ''---'' @ [LF] @ ''title: Notes'' @ [LF] @ ''date: 2020-01-01'' @ [LF] @ ''---''
                    @ [LF] @ ''Hello'')],
       data = [(''notes.json'', Some (JArr []))],
       remote = [] \<rparr>"

definition notes_album :: album where
  "notes_album =
     make_album ''notes'' ''2020-01-01-notes.md'' ''notes.json''
       [(''date'', FStr ''2020-01-01''), (''title'', FStr ''Notes'')] []"

definition notes_rewritten :: string where
  "notes_rewritten =
     post_text ''notes'' ([DQUOTE] @ ''Notes'' @ [DQUOTE]) ([DQUOTE] @ ''X'' @ [DQUOTE])"

section \<open>Properties\<close>

subsection \<open>Basic facts\<close>

lemma startsWith_Cons [simp]: "startsWith (c # cs) (p # ps) \<longleftrightarrow> c = p \<and> startsWith cs ps"
  by (auto simp: startsWith_def)

lemma startsWith_Nil [simp]: "startsWith s []"
  by (simp add: startsWith_def)

lemma startsWith_Nil_Cons [simp]: "\<not> startsWith [] (p # ps)"
  by (simp add: startsWith_def)

lemma map_of_writeFileSync: "map_of (writeFileSync name c d) = (map_of d)(name \<mapsto> c)"
  by (induction d) (auto simp: fun_eq_iff)

lemma endsWith_append: "endsWith (a @ p) p"
  by (simp add: endsWith_def)

subsection \<open>Numbers and their text\<close>

lemma parseInt_0: "parseInt ''0'' = Some 0"
  by (simp add: parseInt_def trimStart_def is_space_def is_digit_def digit_value_def digits_value_def)

lemma show_nat_small: "n < 10 \<Longrightarrow> show_nat n = [digit_char n]"
  by (simp add: show_nat.simps)

lemma show_nat_step: "10 \<le> n \<Longrightarrow> show_nat n = show_nat (n div 10) @ [digit_char (n mod 10)]"
  by (subst show_nat.simps) simp

lemma length_show_nat: "n < 1000 \<Longrightarrow> length (show_nat n) \<le> 3"
proof -
  assume n: "n < 1000"
  show ?thesis
  proof (cases "n < 10")
    case True then show ?thesis by (simp add: show_nat_small)
  next
    case False
    show ?thesis
    proof (cases "n div 10 < 10")
      case True with False show ?thesis by (simp add: show_nat_step show_nat_small)
    next
      case F2: False
      have "n div 10 div 10 < 10" using n by simp
      with False F2 show ?thesis by (simp add: show_nat_step show_nat_small)
    qed
  qed
qed

lemma length_imgNum: "i < 1000 \<Longrightarrow> length (imgNum i) = 3"
  using length_show_nat [of i] by (simp add: imgNum_def padStart3_def)

lemma digit_value_digit_char: "d < 10 \<Longrightarrow> digit_value (digit_char d) = Some d"
proof -
  assume "d < 10"
  then have "d \<in> set [0..<10]" by simp
  then show ?thesis
    by (auto simp: upt_rec digit_char_def digit_value_def)
qed

lemma digits_value_snoc:
  "digits_value r (ds @ [c]) = digits_value r ds * r + (case digit_value c of None \<Rightarrow> 0 | Some d \<Rightarrow> d)"
  by (simp add: digits_value_def)

lemma digits_value_show_nat: "digits_value 10 (show_nat n) = n"
proof (induction n rule: show_nat.induct)
  case (1 n)
  show ?case
  proof (cases "n < 10")
    case True
    then show ?thesis
      by (simp add: show_nat_small digits_value_def digit_value_digit_char)
  next
    case False
    then have "digits_value 10 (show_nat (n div 10)) = n div 10" using 1 by simp
    with False show ?thesis
      by (simp add: show_nat_step digits_value_snoc digit_value_digit_char)
  qed
qed

lemma digits_value_zeros: "digits_value 10 (replicate k CHR ''0'' @ ds) = digits_value 10 ds"
proof -
  have "foldl (\<lambda>acc c. acc * 10 + (case digit_value c of None \<Rightarrow> 0 | Some d \<Rightarrow> d)) 0 (replicate k CHR ''0'') = 0"
    by (induction k) (simp_all add: digit_value_def)
  then show ?thesis by (simp add: digits_value_def)
qed

lemma digits_value_imgNum: "digits_value 10 (imgNum i) = i"
  by (simp add: imgNum_def padStart3_def digits_value_zeros digits_value_show_nat)

subsection \<open>The loop over the uploaded files\<close>

lemma process_file_None_iff:
  "fst (process_file e slg i f calls) = None \<longleftrightarrow> \<not> file_ok e slg i f"
  by (auto simp: process_file_def file_ok_def Let_def split: option.splits prod.splits if_splits)

lemma process_file_ok:
  assumes "file_ok e slg i f"
  shows "\<exists>w h calls'. metadata e (buffer f) = Some (w, h)
           \<and> process_file e slg i f calls = (Some (image_descriptor (config e) slg i w h), calls')
           \<and> length calls' = length calls + 2"
  using assms
  by (auto simp: process_file_def file_ok_def Let_def split: option.splits prod.splits if_splits)

lemma process_files_fail:
  "j < length fs \<Longrightarrow> \<not> file_ok e slg (i + j) (fs ! j) \<Longrightarrow>
   fst (process_files e slg i fs imgs calls) = None"
proof (induction fs arbitrary: i j imgs calls)
  case Nil
  then show ?case by simp
next
  case (Cons f fs)
  show ?case
  proof (cases "file_ok e slg i f")
    case False
    then have "fst (process_file e slg i f calls) = None"
      by (simp add: process_file_None_iff)
    then show ?thesis by (cases "process_file e slg i f calls") simp
  next
    case True
    then obtain w h calls' where
      pf: "process_file e slg i f calls = (Some (image_descriptor (config e) slg i w h), calls')"
      using process_file_ok by blast
    from True Cons.prems obtain j' where j': "j = Suc j'" by (cases j) auto
    with Cons.prems have "j' < length fs" "\<not> file_ok e slg (Suc i + j') (fs ! j')" by auto
    from Cons.IH [OF this] show ?thesis by (simp add: pf)
  qed
qed

lemma process_files_ok:
  "(\<forall>j<length fs. file_ok e slg (i + j) (fs ! j)) \<Longrightarrow>
   \<exists>out calls'. process_files e slg i fs imgs calls = (Some (imgs @ out), calls')
      \<and> length out = length fs
      \<and> length calls' = length calls + 2 * length fs
      \<and> (\<forall>j<length fs. \<exists>w h. metadata e (buffer (fs ! j)) = Some (w, h)
             \<and> out ! j = image_descriptor (config e) slg (i + j) w h)"
proof (induction fs arbitrary: i imgs calls)
  case Nil
  then show ?case by simp
next
  case (Cons f fs)
  from Cons.prems have "file_ok e slg i f" by force
  then obtain w h calls1 where
    md: "metadata e (buffer f) = Some (w, h)" and
    pf: "process_file e slg i f calls = (Some (image_descriptor (config e) slg i w h), calls1)" and
    len1: "length calls1 = length calls + 2"
    using process_file_ok by blast
  from Cons.prems have "\<forall>j<length fs. file_ok e slg (Suc i + j) (fs ! j)" by force
  from Cons.IH [OF this, of "imgs @ [image_descriptor (config e) slg i w h]" calls1]
  obtain out calls' where
    ih: "process_files e slg (Suc i) fs (imgs @ [image_descriptor (config e) slg i w h]) calls1
           = (Some ((imgs @ [image_descriptor (config e) slg i w h]) @ out), calls')"
      "length out = length fs" "length calls' = length calls1 + 2 * length fs"
      "\<forall>j<length fs. \<exists>w h. metadata e (buffer (fs ! j)) = Some (w, h)
             \<and> out ! j = image_descriptor (config e) slg (Suc i + j) w h"
    by blast
  let ?out = "image_descriptor (config e) slg i w h # out"
  have "process_files e slg i (f # fs) imgs calls = (Some (imgs @ ?out), calls')"
    by (simp add: pf ih(1))
  moreover have "length ?out = length (f # fs)" by (simp add: ih(2))
  moreover have "length calls' = length calls + 2 * length (f # fs)" by (simp add: ih(3) len1)
  moreover have "\<forall>j<length (f # fs). \<exists>w h. metadata e (buffer ((f # fs) ! j)) = Some (w, h)
             \<and> ?out ! j = image_descriptor (config e) slg (i + j) w h"
  proof (intro allI impI)
    fix j assume "j < length (f # fs)"
    show "\<exists>w h. metadata e (buffer ((f # fs) ! j)) = Some (w, h)
             \<and> ?out ! j = image_descriptor (config e) slg (i + j) w h"
    proof (cases j)
      case 0
      then show ?thesis using md by simp
    next
      case (Suc j')
      with \<open>j < length (f # fs)\<close> have "j' < length fs" by simp
      with ih(4) Suc show ?thesis by simp
    qed
  qed
  ultimately show ?case by blast
qed

lemma process_files_Some_ok:
  assumes "process_files e slg i fs imgs calls = (Some out, calls')"
  shows "\<forall>j<length fs. file_ok e slg (i + j) (fs ! j)"
proof (rule ccontr)
  assume "\<not> ?thesis"
  then obtain j where "j < length fs" "\<not> file_ok e slg (i + j) (fs ! j)" by blast
  from process_files_fail [OF this, where imgs = imgs and calls = calls] show False
    by (simp add: assms)
qed

subsection \<open>Creating an album\<close>

lemma quoted_FStr: "quoted (Some (FStr s)) d \<noteq> None"
  by (simp add: quoted_def)

lemma quoted_map_FStr: "quoted (map_option FStr v) d \<noteq> None"
  by (cases v) (simp_all add: quoted_def)

lemma generatePostMarkdown_strings:
  assumes "data_title d = Some (FStr t)"
    and "data_description d = map_option FStr ds"
    and "data_developer d = map_option FStr dv"
  shows "generatePostMarkdown e d \<noteq> None"
proof -
  obtain a where a: "quoted (data_title d) [DQUOTE, DQUOTE] = Some a"
    using assms(1) quoted_FStr by (metis option.exhaust)
  obtain b where b: "quoted (data_description d) ([DQUOTE] @ ''Virtual Photography'' @ [DQUOTE]) = Some b"
    using assms(2) quoted_map_FStr by (metis option.exhaust)
  obtain c where c: "quoted (data_developer d) [DQUOTE, DQUOTE] = Some c"
    using assms(3) quoted_map_FStr by (metis option.exhaust)
  show ?thesis
    unfolding generatePostMarkdown_def Let_def a b c by simp
qed

lemma createAlbum_existing:
  assumes "create_title req = Some ttl"
    and "existsSync (data s) (createSlug e ttl @ ''.json'')"
  shows "createAlbum e req s = (Fail400 ''Album with this name already exists'', s)"
  using assms by (simp add: createAlbum_def Let_def)

text \<open>What the route does when no descriptor of the slug exists yet.\<close>

lemma createAlbum_fresh:
  assumes "create_title req = Some ttl"
    and "\<not> existsSync (data s) (createSlug e ttl @ ''.json'')"
  shows "(if \<forall>i<length (create_files req). file_ok e (createSlug e ttl) i (create_files req ! i)
          then \<exists>imgs calls postContent.
                 process_files e (createSlug e ttl) 0 (create_files req) [] (remote s) = (Some imgs, calls)
               \<and> createAlbum e req s =
                   (Success (created_message ttl (length imgs)),
                    \<lparr> posts = writeFileSync (str_or (create_date req) (today e) @ ''-'' @ createSlug e ttl @ ''.md'')
                                postContent (posts s),
                      data = writeFileSync (createSlug e ttl @ ''.json'') (Some (JArr imgs)) (data s),
                      remote = calls \<rparr>)
          else \<exists>calls. createAlbum e req s = (Fail500, s\<lparr>remote := calls\<rparr>))"
proof (cases "\<forall>i<length (create_files req). file_ok e (createSlug e ttl) i (create_files req ! i)")
  case True
  then have "\<forall>j<length (create_files req). file_ok e (createSlug e ttl) (0 + j) (create_files req ! j)"
    by simp
  from process_files_ok [OF this, of "[]" "remote s"]
  obtain out calls where
    pf: "process_files e (createSlug e ttl) 0 (create_files req) [] (remote s) = (Some out, calls)"
    by auto
  let ?d = "\<lparr> data_title = Some (FStr ttl),
              data_description = map_option FStr (create_description req),
              data_developer = map_option FStr (create_developer req),
              data_date = Some (FStr (str_or (create_date req) (today e))),
              data_tags = None,
              data_slug = createSlug e ttl,
              data_cardImage = Some 0, data_cardOffset = Some 50, data_cardOffsetX = Some 50,
              data_cardZoom = Some 100, data_bannerImage = Some 0, data_bannerOffset = Some 50,
              data_bannerOffsetX = Some 50, data_bannerZoom = Some 100 \<rparr>"
  have "generatePostMarkdown e ?d \<noteq> None"
    by (rule generatePostMarkdown_strings) simp_all
  then obtain postContent where g: "generatePostMarkdown e ?d = Some postContent" by blast
  have "createAlbum e req s =
          (Success (created_message ttl (length out)),
           \<lparr> posts = writeFileSync (str_or (create_date req) (today e) @ ''-'' @ createSlug e ttl @ ''.md'')
                       postContent (posts s),
             data = writeFileSync (createSlug e ttl @ ''.json'') (Some (JArr out)) (data s),
             remote = calls \<rparr>)"
    using assms by (simp add: createAlbum_def Let_def pf g)
  with pf True show ?thesis by auto
next
  case False
  then obtain i where "i < length (create_files req)"
      "\<not> file_ok e (createSlug e ttl) (0 + i) (create_files req ! i)" by auto
  from process_files_fail [OF this, where imgs = "[]" and calls = "remote s"]
  obtain calls where
    "process_files e (createSlug e ttl) 0 (create_files req) [] (remote s) = (None, calls)"
    by (cases "process_files e (createSlug e ttl) 0 (create_files req) [] (remote s)") auto
  then have "createAlbum e req s = (Fail500, s\<lparr>remote := calls\<rparr>)"
    using assms by (simp add: createAlbum_def Let_def)
  with False show ?thesis by auto
qed

lemma createAlbum_success:
  assumes "create_title req = Some ttl"
    and "\<not> existsSync (data s) (createSlug e ttl @ ''.json'')"
    and "\<forall>i<length (create_files req). file_ok e (createSlug e ttl) i (create_files req ! i)"
  shows "fst (createAlbum e req s) = Success (created_message ttl (length (create_files req)))"
proof -
  from createAlbum_fresh [OF assms(1,2)] assms(3) obtain imgs calls where
    pf: "process_files e (createSlug e ttl) 0 (create_files req) [] (remote s) = (Some imgs, calls)" and
    c: "fst (createAlbum e req s) = Success (created_message ttl (length imgs))"
    by auto
  from assms(3) have "\<forall>j<length (create_files req).
      file_ok e (createSlug e ttl) (0 + j) (create_files req ! j)" by simp
  from process_files_ok [OF this, of "[]" "remote s"] pf
  have "length imgs = length (create_files req)" by auto
  with c show ?thesis by simp
qed

lemma getCdnUrl_endsWith: "endsWith (getCdnUrl cfg p) p"
proof -
  obtain a where "getCdnUrl cfg p = a @ p"
    by (cases "use_cdn cfg \<and> cdn_domain cfg \<noteq> []") (auto simp: getCdnUrl_def)
  then show ?thesis by (simp add: endsWith_append)
qed

lemma getCdnUrl_nonempty: "getCdnUrl cfg p \<noteq> []"
  by (simp add: getCdnUrl_def)

lemma normalize_image_descriptor:
  "url (normalize_image (image_descriptor cfg slg i w h)) = JStr (getCdnUrl cfg (originalFileName slg i))"
  "thumb (normalize_image (image_descriptor cfg slg i w h)) = JStr (getCdnUrl cfg (thumbFileName slg i))"
  by (simp_all add: normalize_image_def image_descriptor_def or_default_def or_else_def getCdnUrl_nonempty)

lemma example_slug_night_city: "createSlug example_env ''night city'' = ''night-city''"
  by code_simp

text \<open>C7: when a descriptor file already exists for the slug of the title, creating the album
  fails with status 400 and the message of the conflict, and the state is the one before the
  call: no storage call is added to the log, and the post files and the data files, the
  descriptor and the post of the existing album among them, are unchanged.\<close>

theorem create_conflict:
  assumes "create_title req = Some ttl"
    and "existsSync (data s) (createSlug e ttl @ ''.json'')"
  shows "createAlbum e req s = (Fail400 ''Album with this name already exists'', s)"
  using assms by (rule createAlbum_existing)

theorem create_conflict_witness:
  "createAlbum example_env two_files_request existing_state
     = (Fail400 ''Album with this name already exists'', existing_state)"
proof -
  have t: "create_title two_files_request = Some ''night city''"
    by (simp add: two_files_request_def)
  have x: "existsSync (data existing_state) (createSlug example_env ''night city'' @ ''.json'')"
    by (simp add: example_slug_night_city existing_state_def existsSync_def)
  from create_conflict [OF t x] show ?thesis .
qed

lemma third_upload_refused:
  "\<not> file_ok example_env ''night-city'' 2 (create_files three_files_request ! 2)"
  by code_simp

text \<open>C1: creating an album writes nothing locally unless every file went through. When
  decoding, re-encoding or an upload fails for one of the files, the route answers with status
  500 and the post files and data files are those before the call. When a post file or a data
  file has changed, every file was decoded, re-encoded and uploaded, and the two uploads of
  each file are in the log.\<close>

theorem create_is_atomic:
  assumes "create_title req = Some ttl"
    and "\<not> existsSync (data s) (createSlug e ttl @ ''.json'')"
  shows "((\<exists>i<length (create_files req). \<not> file_ok e (createSlug e ttl) i (create_files req ! i)) \<longrightarrow>
            fst (createAlbum e req s) = Fail500
          \<and> posts (snd (createAlbum e req s)) = posts s
          \<and> data (snd (createAlbum e req s)) = data s)
       \<and> (posts (snd (createAlbum e req s)) \<noteq> posts s \<or> data (snd (createAlbum e req s)) \<noteq> data s \<longrightarrow>
            (\<forall>i<length (create_files req). file_ok e (createSlug e ttl) i (create_files req ! i))
          \<and> length (remote (snd (createAlbum e req s))) = length (remote s) + 2 * length (create_files req))"
proof (cases "\<forall>i<length (create_files req). file_ok e (createSlug e ttl) i (create_files req ! i)")
  case True
  with createAlbum_fresh [OF assms] obtain imgs calls postContent where
    pf: "process_files e (createSlug e ttl) 0 (create_files req) [] (remote s) = (Some imgs, calls)" and
    c: "createAlbum e req s =
          (Success (created_message ttl (length imgs)),
           \<lparr> posts = writeFileSync (str_or (create_date req) (today e) @ ''-'' @ createSlug e ttl @ ''.md'')
                       postContent (posts s),
             data = writeFileSync (createSlug e ttl @ ''.json'') (Some (JArr imgs)) (data s),
             remote = calls \<rparr>)"
    by auto
  from True have "\<forall>j<length (create_files req). file_ok e (createSlug e ttl) (0 + j) (create_files req ! j)"
    by simp
  from process_files_ok [OF this, of "[]" "remote s"] pf
  have "length calls = length (remote s) + 2 * length (create_files req)" by auto
  with True c show ?thesis by auto
next
  case False
  with createAlbum_fresh [OF assms] obtain calls where
    "createAlbum e req s = (Fail500, s\<lparr>remote := calls\<rparr>)" by auto
  with False show ?thesis by auto
qed

theorem create_is_atomic_witness:
  "(\<exists>i<length (create_files three_files_request).
      \<not> file_ok example_env ''night-city'' i (create_files three_files_request ! i))
   \<and> fst (createAlbum example_env three_files_request empty_state) = Fail500
   \<and> posts (snd (createAlbum example_env three_files_request empty_state)) = []
   \<and> data (snd (createAlbum example_env three_files_request empty_state)) = []"
proof -
  have t: "create_title three_files_request = Some ''night city''"
    by (simp add: three_files_request_def)
  have x: "\<not> existsSync (data empty_state) (createSlug example_env ''night city'' @ ''.json'')"
    by (simp add: empty_state_def existsSync_def)
  have f: "\<exists>i<length (create_files three_files_request).
      \<not> file_ok example_env ''night-city'' i (create_files three_files_request ! i)"
  proof (intro exI conjI)
    show "2 < length (create_files three_files_request)" by (simp add: three_files_request_def)
    show "\<not> file_ok example_env ''night-city'' 2 (create_files three_files_request ! 2)"
      by (rule third_upload_refused)
  qed
  from create_is_atomic [OF t x] f show ?thesis
    by (simp add: example_slug_night_city empty_state_def)
qed

lemma two_files_ok:
  "file_ok example_env ''night-city'' 0 (create_files two_files_request ! 0)"
  "file_ok example_env ''night-city'' 1 (create_files two_files_request ! 1)"
  by code_simp+

lemma two_files_created:
  "fst (createAlbum example_env two_files_request empty_state) = Success (created_message ''night city'' 2)"
proof -
  have t: "create_title two_files_request = Some ''night city''"
    by (simp add: two_files_request_def)
  have x: "\<not> existsSync (data empty_state) (createSlug example_env ''night city'' @ ''.json'')"
    by (simp add: empty_state_def existsSync_def)
  have n: "length (create_files two_files_request) = 2"
    by (simp add: two_files_request_def)
  have "\<forall>i<length (create_files two_files_request).
          file_ok example_env (createSlug example_env ''night city'') i (create_files two_files_request ! i)"
    using two_files_ok by (auto simp: n example_slug_night_city less_Suc_eq numeral_2_eq_2)
  from createAlbum_success [OF t x this] show ?thesis by (simp add: n)
qed

lemma second_url:
  "getCdnUrl (config example_env) (''night-city'' @ ''/img'' @ imgNum 1 @ ''.jpg'')
     = ''https://f003.backblazeb2.com/file/photos/night-city/img001.jpg''"
  by code_simp

text \<open>C8: after a successful creation with \<open>N\<close> files the message counts \<open>N\<close> images and
  the descriptor file of the slug holds \<open>N\<close> entries, read back as \<open>N\<close> images. Entry
  \<open>i\<close> is built from file \<open>i\<close> of the request (its width and height); its \<open>url\<close> is
  the public URL of \<^verbatim>\<open>{slug}/img{NNN}.jpg\<close> and ends with that path, its \<open>thumb\<close> is
  the public URL of \<^verbatim>\<open>{slug}/thumb/img{NNN}.webp\<close> and ends with that path, where
  \<^verbatim>\<open>NNN\<close> is a decimal numeral of value \<open>i\<close>, three digits long for
  \<open>i < 1000\<close>.\<close>

theorem create_images_follow_files:
  assumes "create_title req = Some ttl"
    and "createAlbum e req s = (Success msg, s')"
  shows "msg = created_message ttl (length (create_files req))
       \<and> (\<exists>imgs. map_of (data s') (createSlug e ttl @ ''.json'') = Some (Some (JArr imgs))
            \<and> length imgs = length (create_files req)
            \<and> length (read_images (Some (JArr imgs))) = length (create_files req)
            \<and> (\<forall>i<length (create_files req).
                  (\<exists>w h. metadata e (buffer (create_files req ! i)) = Some (w, h)
                       \<and> imgs ! i = image_descriptor (config e) (createSlug e ttl) i w h)
                \<and> url (read_images (Some (JArr imgs)) ! i) =
                    JStr (getCdnUrl (config e) (createSlug e ttl @ ''/img'' @ imgNum i @ ''.jpg''))
                \<and> endsWith (getCdnUrl (config e) (createSlug e ttl @ ''/img'' @ imgNum i @ ''.jpg''))
                    (createSlug e ttl @ ''/img'' @ imgNum i @ ''.jpg'')
                \<and> thumb (read_images (Some (JArr imgs)) ! i) =
                    JStr (getCdnUrl (config e) (createSlug e ttl @ ''/thumb/img'' @ imgNum i @ ''.webp''))
                \<and> endsWith (getCdnUrl (config e) (createSlug e ttl @ ''/thumb/img'' @ imgNum i @ ''.webp''))
                    (createSlug e ttl @ ''/thumb/img'' @ imgNum i @ ''.webp'')
                \<and> digits_value 10 (imgNum i) = i
                \<and> (i < 1000 \<longrightarrow> length (imgNum i) = 3)))"
proof -
  let ?slg = "createSlug e ttl" and ?fs = "create_files req"
  have fresh: "\<not> existsSync (data s) (?slg @ ''.json'')"
    using assms createAlbum_existing [OF assms(1)] by auto
  have ok: "\<forall>i<length ?fs. file_ok e ?slg i (?fs ! i)"
  proof (rule ccontr)
    assume "\<not> ?thesis"
    with createAlbum_fresh [OF assms(1) fresh] assms(2) show False by auto
  qed
  with createAlbum_fresh [OF assms(1) fresh] obtain imgs calls postContent where
    pf: "process_files e ?slg 0 ?fs [] (remote s) = (Some imgs, calls)" and
    c: "createAlbum e req s =
          (Success (created_message ttl (length imgs)),
           \<lparr> posts = writeFileSync (str_or (create_date req) (today e) @ ''-'' @ ?slg @ ''.md'')
                       postContent (posts s),
             data = writeFileSync (?slg @ ''.json'') (Some (JArr imgs)) (data s),
             remote = calls \<rparr>)"
    by auto
  from ok have "\<forall>j<length ?fs. file_ok e ?slg (0 + j) (?fs ! j)" by simp
  from process_files_ok [OF this, of "[]" "remote s"] pf
  have len: "length imgs = length ?fs"
    and each: "\<forall>j<length ?fs. \<exists>w h. metadata e (buffer (?fs ! j)) = Some (w, h)
                  \<and> imgs ! j = image_descriptor (config e) ?slg j w h"
    by auto
  have nonull: "JNull \<notin> set imgs"
  proof
    assume "JNull \<in> set imgs"
    then obtain j where "j < length imgs" "imgs ! j = JNull" by (auto simp: in_set_conv_nth)
    with each len show False by (auto simp: image_descriptor_def)
  qed
  have rd: "read_images (Some (JArr imgs)) = map normalize_image imgs"
    using nonull by (simp add: read_images_def)
  from c assms(2) have msg: "msg = created_message ttl (length imgs)"
    and s': "data s' = writeFileSync (?slg @ ''.json'') (Some (JArr imgs)) (data s)"
    by auto
  have written: "map_of (data s') (?slg @ ''.json'') = Some (Some (JArr imgs))"
    by (simp add: s' map_of_writeFileSync)
  have per: "\<forall>i<length ?fs.
                  (\<exists>w h. metadata e (buffer (?fs ! i)) = Some (w, h)
                       \<and> imgs ! i = image_descriptor (config e) ?slg i w h)
                \<and> url (read_images (Some (JArr imgs)) ! i) =
                    JStr (getCdnUrl (config e) (?slg @ ''/img'' @ imgNum i @ ''.jpg''))
                \<and> endsWith (getCdnUrl (config e) (?slg @ ''/img'' @ imgNum i @ ''.jpg''))
                    (?slg @ ''/img'' @ imgNum i @ ''.jpg'')
                \<and> thumb (read_images (Some (JArr imgs)) ! i) =
                    JStr (getCdnUrl (config e) (?slg @ ''/thumb/img'' @ imgNum i @ ''.webp''))
                \<and> endsWith (getCdnUrl (config e) (?slg @ ''/thumb/img'' @ imgNum i @ ''.webp''))
                    (?slg @ ''/thumb/img'' @ imgNum i @ ''.webp'')
                \<and> digits_value 10 (imgNum i) = i
                \<and> (i < 1000 \<longrightarrow> length (imgNum i) = 3)"
  proof (intro allI impI)
    fix i assume i: "i < length ?fs"
    with each obtain w h where
      wh: "metadata e (buffer (?fs ! i)) = Some (w, h)"
          "imgs ! i = image_descriptor (config e) ?slg i w h" by blast
    have "url (read_images (Some (JArr imgs)) ! i) =
            JStr (getCdnUrl (config e) (?slg @ ''/img'' @ imgNum i @ ''.jpg''))"
      using i len wh by (simp add: rd normalize_image_descriptor originalFileName_def)
    moreover have "thumb (read_images (Some (JArr imgs)) ! i) =
            JStr (getCdnUrl (config e) (?slg @ ''/thumb/img'' @ imgNum i @ ''.webp''))"
      using i len wh by (simp add: rd normalize_image_descriptor thumbFileName_def)
    ultimately show "(\<exists>w h. metadata e (buffer (?fs ! i)) = Some (w, h)
                       \<and> imgs ! i = image_descriptor (config e) ?slg i w h)
                \<and> url (read_images (Some (JArr imgs)) ! i) =
                    JStr (getCdnUrl (config e) (?slg @ ''/img'' @ imgNum i @ ''.jpg''))
                \<and> endsWith (getCdnUrl (config e) (?slg @ ''/img'' @ imgNum i @ ''.jpg''))
                    (?slg @ ''/img'' @ imgNum i @ ''.jpg'')
                \<and> thumb (read_images (Some (JArr imgs)) ! i) =
                    JStr (getCdnUrl (config e) (?slg @ ''/thumb/img'' @ imgNum i @ ''.webp''))
                \<and> endsWith (getCdnUrl (config e) (?slg @ ''/thumb/img'' @ imgNum i @ ''.webp''))
                    (?slg @ ''/thumb/img'' @ imgNum i @ ''.webp'')
                \<and> digits_value 10 (imgNum i) = i
                \<and> (i < 1000 \<longrightarrow> length (imgNum i) = 3)"
      using wh by (simp add: getCdnUrl_endsWith digits_value_imgNum length_imgNum)
  qed
  have rdlen: "length (read_images (Some (JArr imgs))) = length ?fs"
    by (simp add: rd len)
  show ?thesis
  proof (intro conjI exI [of _ imgs])
    show "msg = created_message ttl (length ?fs)" using msg len by simp
    show "map_of (data s') (?slg @ ''.json'') = Some (Some (JArr imgs))" by (rule written)
    show "length imgs = length ?fs" by (rule len)
    show "length (read_images (Some (JArr imgs))) = length ?fs" by (rule rdlen)
  qed (rule per)
qed

theorem create_images_follow_files_witness:
  "\<exists>imgs. map_of (data (snd (createAlbum example_env two_files_request empty_state))) ''night-city.json''
             = Some (Some (JArr imgs))
         \<and> length imgs = 2
         \<and> url (read_images (Some (JArr imgs)) ! 1)
             = JStr ''https://f003.backblazeb2.com/file/photos/night-city/img001.jpg''"
proof -
  have t: "create_title two_files_request = Some ''night city''"
    by (simp add: two_files_request_def)
  have n: "length (create_files two_files_request) = 2"
    by (simp add: two_files_request_def)
  have c: "createAlbum example_env two_files_request empty_state
             = (Success (created_message ''night city'' 2),
                snd (createAlbum example_env two_files_request empty_state))"
    using two_files_created by (simp add: prod_eq_iff)
  from create_images_follow_files [OF t c] obtain imgs where
    "map_of (data (snd (createAlbum example_env two_files_request empty_state)))
        (createSlug example_env ''night city'' @ ''.json'') = Some (Some (JArr imgs))"
    "length imgs = length (create_files two_files_request)"
    "\<forall>i<length (create_files two_files_request).
        url (read_images (Some (JArr imgs)) ! i) =
          JStr (getCdnUrl (config example_env)
                  (createSlug example_env ''night city'' @ ''/img'' @ imgNum i @ ''.jpg''))"
    by blast
  then show ?thesis
    using second_url by (auto simp: example_slug_night_city n)
qed

subsection \<open>The order of the listing\<close>

lemma indexOf_ge: "indexOf xs x \<ge> - 1"
  by (induction xs) (auto simp: Let_def)

lemma not_after_date:
  "has_date e x \<Longrightarrow> has_date e y \<Longrightarrow>
   not_after (date_cmp e) x y \<longleftrightarrow> - timestamp e x \<le> - timestamp e y"
  unfolding not_after_def date_cmp_def has_date_def timestamp_def
  by (cases "parseDate e (fm_string (date x))"; cases "parseDate e (fm_string (date y))") simp_all

lemma order_cmp_both:
  "in_order ord x \<Longrightarrow> in_order ord y \<Longrightarrow>
   not_after (order_cmp e ord) x y \<longleftrightarrow> order_index ord x \<le> order_index ord y"
  unfolding not_after_def order_cmp_def in_order_def order_index_def Let_def by simp

lemma order_cmp_first: "in_order ord x \<Longrightarrow> \<not> in_order ord y \<Longrightarrow> not_after (order_cmp e ord) x y"
  unfolding not_after_def order_cmp_def in_order_def order_index_def Let_def by simp

lemma order_cmp_second: "\<not> in_order ord x \<Longrightarrow> in_order ord y \<Longrightarrow> \<not> not_after (order_cmp e ord) x y"
  unfolding not_after_def order_cmp_def in_order_def order_index_def Let_def by simp

lemma order_cmp_none:
  "\<not> in_order ord x \<Longrightarrow> \<not> in_order ord y \<Longrightarrow>
   not_after (order_cmp e ord) x y = not_after (date_cmp e) x y"
  unfolding not_after_def order_cmp_def in_order_def order_index_def Let_def by simp

lemma insert_sorted_date:
  "has_date e x \<Longrightarrow> \<forall>y\<in>set B. has_date e y \<Longrightarrow>
   insert_sorted (date_cmp e) x B = insort_key (\<lambda>a. - timestamp e a) x B"
  by (induction B) (simp_all add: not_after_date)

lemma js_sort_Cons: "js_sort cmp (x # xs) = insert_sorted cmp x (js_sort cmp xs)"
  by (simp add: js_sort_def)

lemma js_sort_date:
  "\<forall>a\<in>set xs. has_date e a \<Longrightarrow> js_sort (date_cmp e) xs = sort_key (\<lambda>a. - timestamp e a) xs"
proof (induction xs)
  case Nil
  then show ?case by (simp add: js_sort_def)
next
  case (Cons x xs)
  then have ih: "js_sort (date_cmp e) xs = sort_key (\<lambda>a. - timestamp e a) xs" by simp
  have "\<forall>y\<in>set (sort_key (\<lambda>a. - timestamp e a) xs). has_date e y"
    using Cons.prems by simp
  with Cons.prems show ?case
    by (simp add: js_sort_Cons ih insert_sorted_date)
qed

lemma insert_sorted_ordered:
  "in_order ord x \<Longrightarrow> \<forall>y\<in>set A. in_order ord y \<Longrightarrow> \<forall>y\<in>set B. \<not> in_order ord y \<Longrightarrow>
   insert_sorted (order_cmp e ord) x (A @ B) = insort_key (order_index ord) x A @ B"
proof (induction A)
  case Nil
  then show ?case by (cases B) (simp_all add: order_cmp_first)
next
  case (Cons y A)
  then show ?case by (simp add: order_cmp_both)
qed

lemma insert_sorted_rest:
  "\<not> in_order ord x \<Longrightarrow> has_date e x \<Longrightarrow> \<forall>y\<in>set B. \<not> in_order ord y \<and> has_date e y \<Longrightarrow>
   insert_sorted (order_cmp e ord) x B = insort_key (\<lambda>a. - timestamp e a) x B"
  by (induction B) (simp_all add: order_cmp_none not_after_date)

lemma insert_sorted_unordered:
  "\<not> in_order ord x \<Longrightarrow> has_date e x \<Longrightarrow> \<forall>y\<in>set A. in_order ord y \<Longrightarrow>
   \<forall>y\<in>set B. \<not> in_order ord y \<and> has_date e y \<Longrightarrow>
   insert_sorted (order_cmp e ord) x (A @ B) = A @ insort_key (\<lambda>a. - timestamp e a) x B"
proof (induction A)
  case Nil
  then show ?case by (simp add: insert_sorted_rest)
next
  case (Cons y A)
  then show ?case by (simp add: order_cmp_second)
qed

lemma js_sort_order:
  "\<forall>a\<in>set xs. \<not> in_order ord a \<longrightarrow> has_date e a \<Longrightarrow>
   js_sort (order_cmp e ord) xs =
     sort_key (order_index ord) (filter (in_order ord) xs)
     @ sort_key (\<lambda>a. - timestamp e a) (filter (\<lambda>a. \<not> in_order ord a) xs)"
proof (induction xs)
  case Nil
  then show ?case by (simp add: js_sort_def)
next
  case (Cons x xs)
  let ?A = "sort_key (order_index ord) (filter (in_order ord) xs)"
  let ?B = "sort_key (\<lambda>a. - timestamp e a) (filter (\<lambda>a. \<not> in_order ord a) xs)"
  from Cons have ih: "js_sort (order_cmp e ord) xs = ?A @ ?B" by simp
  have A: "\<forall>y\<in>set ?A. in_order ord y" by simp
  have B: "\<forall>y\<in>set ?B. \<not> in_order ord y \<and> has_date e y" using Cons.prems by simp
  have B': "\<forall>y\<in>set ?B. \<not> in_order ord y" using B by blast
  show ?case
  proof (cases "in_order ord x")
    case True
    have "insert_sorted (order_cmp e ord) x (?A @ ?B) = insort_key (order_index ord) x ?A @ ?B"
      by (rule insert_sorted_ordered [OF True A B'])
    then have "js_sort (order_cmp e ord) (x # xs) = insort_key (order_index ord) x ?A @ ?B"
      by (simp only: js_sort_Cons ih)
    also have "insort_key (order_index ord) x ?A = sort_key (order_index ord) (filter (in_order ord) (x # xs))"
      using True by simp
    also have "?B = sort_key (\<lambda>a. - timestamp e a) (filter (\<lambda>a. \<not> in_order ord a) (x # xs))"
      using True by simp
    finally show ?thesis .
  next
    case False
    with Cons.prems have hd: "has_date e x" by simp
    have "insert_sorted (order_cmp e ord) x (?A @ ?B)
        = ?A @ insort_key (\<lambda>a. - timestamp e a) x ?B"
      by (rule insert_sorted_unordered [OF False hd A B])
    then have "js_sort (order_cmp e ord) (x # xs) = ?A @ insort_key (\<lambda>a. - timestamp e a) x ?B"
      by (simp only: js_sort_Cons ih)
    also have "insort_key (\<lambda>a. - timestamp e a) x ?B
        = sort_key (\<lambda>a. - timestamp e a) (filter (\<lambda>a. \<not> in_order ord a) (x # xs))"
      using False by simp
    also have "?A = sort_key (order_index ord) (filter (in_order ord) (x # xs))"
      using False by simp
    finally show ?thesis .
  qed
qed

lemma in_order_Nil: "\<not> in_order [] a"
  by (simp add: in_order_def order_index_def)

lemma scan_two_albums: "scan_albums two_albums_state = [album_b, album_a]"
  by code_simp

lemma scan_ordered_albums: "scan_albums ordered_albums_state = [album_b, album_a]"
  by code_simp

lemma example_order:
  "getAlbumOrder two_albums_state = []"
  "getAlbumOrder ordered_albums_state = [JStr ''b'', JStr ''a'']"
  by code_simp+

lemma example_albums:
  "slug album_a = ''a''" "slug album_b = ''b''"
  "has_date example_env album_a" "has_date example_env album_b"
  "timestamp example_env album_a = 1577836800000" "timestamp example_env album_b = 1546300800000"
  "order_index [JStr ''b'', JStr ''a''] album_a = 1" "order_index [JStr ''b'', JStr ''a''] album_b = 0"
  by code_simp+

lemma scan_four_albums: "scan_albums four_albums_state = [album_d, album_a, album_c, album_b]"
  by code_simp

lemma scan_four_ordered: "scan_albums four_ordered_state = [album_d, album_a, album_c, album_b]"
  by code_simp

lemma four_order:
  "getAlbumOrder four_albums_state = []"
  "getAlbumOrder four_ordered_state = [JStr ''b'', JStr ''a'']"
  by code_simp+

lemma four_albums:
  "slug album_c = ''c''" "slug album_d = ''d''"
  "has_date example_env album_c" "has_date example_env album_d"
  "timestamp example_env album_c = 1714521600000" "timestamp example_env album_d = 1577836800000"
  "order_index [JStr ''b'', JStr ''a''] album_c = - 1" "order_index [JStr ''b'', JStr ''a''] album_d = - 1"
  by code_simp+

text \<open>When every album outside the manual order has a date that parses, the comparator is
  consistent: \<^verbatim>\<open>getAlbums\<close> returns first the albums whose slug is in the manual
  order, in the sequence of that order whatever their dates, and after them the other albums by
  descending date; without a manual order it returns all albums by descending date. The sort is
  stable.\<close>

lemma getAlbums_when_dates_parse:
  assumes "\<forall>a\<in>set (scan_albums s). \<not> in_order (getAlbumOrder s) a \<longrightarrow> has_date e a"
  shows "getAlbums e s =
           sort_key (order_index (getAlbumOrder s)) (filter (in_order (getAlbumOrder s)) (scan_albums s))
           @ sort_key (\<lambda>a. - timestamp e a)
               (filter (\<lambda>a. \<not> in_order (getAlbumOrder s) a) (scan_albums s))
       \<and> (getAlbumOrder s = [] \<longrightarrow>
            getAlbums e s = sort_key (\<lambda>a. - timestamp e a) (scan_albums s))"
proof (cases "getAlbumOrder s = []")
  case True
  with assms have "\<forall>a\<in>set (scan_albums s). has_date e a" by (simp add: in_order_Nil)
  then have "getAlbums e s = sort_key (\<lambda>a. - timestamp e a) (scan_albums s)"
    using True by (simp add: getAlbums_def sort_albums_def js_sort_date)
  with True show ?thesis by (simp add: in_order_Nil)
next
  case False
  then have "getAlbums e s = js_sort (order_cmp e (getAlbumOrder s)) (scan_albums s)"
    by (simp add: getAlbums_def sort_albums_def)
  with False js_sort_order [OF assms] show ?thesis by simp
qed

text \<open>The two albums of 2020 and 2019 with the manual order \<open>b, a\<close>, and the four albums
  listed as \<open>d, a, c, b\<close>, with that manual order and without one.\<close>

lemma getAlbums_dated_examples:
  "map slug (getAlbums example_env ordered_albums_state) = [''b'', ''a'']
   \<and> map slug (getAlbums example_env two_albums_state) = [''a'', ''b'']
   \<and> map slug (scan_albums four_ordered_state) = [''d'', ''a'', ''c'', ''b'']
   \<and> map slug (getAlbums example_env four_ordered_state) = [''b'', ''a'', ''c'', ''d'']
   \<and> map slug (getAlbums example_env four_albums_state) = [''c'', ''d'', ''a'', ''b'']"
proof -
  have "getAlbums example_env ordered_albums_state = [album_b, album_a]"
    using getAlbums_when_dates_parse [of ordered_albums_state example_env]
    by (simp add: scan_ordered_albums example_order example_albums in_order_def)
  moreover have "getAlbums example_env two_albums_state = [album_a, album_b]"
    using getAlbums_when_dates_parse [of two_albums_state example_env]
    by (simp add: scan_two_albums example_order example_albums in_order_Nil)
  moreover have "getAlbums example_env four_ordered_state = [album_b, album_a, album_c, album_d]"
    using getAlbums_when_dates_parse [of four_ordered_state example_env]
    by (simp add: scan_four_ordered four_order example_albums four_albums in_order_def)
  moreover have "getAlbums example_env four_albums_state = [album_c, album_d, album_a, album_b]"
    using getAlbums_when_dates_parse [of four_albums_state example_env]
    by (simp add: scan_four_albums four_order example_albums four_albums in_order_Nil)
  ultimately show ?thesis by (simp add: example_albums four_albums scan_four_ordered)
qed


subsection \<open>Reading one album\<close>

lemma read_shots: "read_images (Some (JArr shots_entries)) = shots_images"
  by (simp add: read_images_def shots_entries_def shots_images_def normalize_image_def
        or_default_def or_else_def)

text \<open>A state with one post file and one descriptor file.\<close>

lemma scan_albums_single:
  assumes "posts s = [(pf, text)]" and "data s = [(jf, content)]"
    and "endsWith jf ''.json''" and "\<not> startsWith jf ''_''"
    and "remove_first ''.json'' jf = slg" and "endsWith pf (slg @ ''.md'')"
    and "frontMatterMatch text = Some (block, body)" and "parse_front_matter block = fm"
  shows "scan_albums s = [make_album slg pf jf fm (read_images content)]"
  using assms by (simp add: scan_albums_def read_album_def List.map_filter_simps)

lemma getAlbum_single:
  assumes "scan_albums s = [a]" and "map_of (data s) ''_album-order.json'' = None"
    and "slug a = slg"
  shows "getAlbum e s slg = Some a"
  using assms
  by (simp add: getAlbum_def getAlbums_def sort_albums_def getAlbumOrder_def js_sort_def)

lemma shots_front_matter:
  "frontMatterMatch (''---'' @ [LF] @ ''title: Shots'' @ [LF] @ ''date: 2020-01-01'' @ [LF] @ ''---'')
     = Some (''title: Shots'' @ [LF] @ ''date: 2020-01-01'', [])"
  "parse_front_matter (''title: Shots'' @ [LF] @ ''date: 2020-01-01'')
     = [(''date'', FStr ''2020-01-01''), (''title'', FStr ''Shots'')]"
  by code_simp+

lemma shots_names:
  "endsWith ''shots.json'' ''.json''" "\<not> startsWith ''shots.json'' ''_''"
  "remove_first ''.json'' ''shots.json'' = ''shots''"
  "endsWith ''2020-01-01-shots.md'' (''shots'' @ ''.md'')"
  by code_simp+

lemma scan_shots: "scan_albums shots_state = [shots_album]"
proof -
  have "scan_albums shots_state =
          [make_album ''shots'' ''2020-01-01-shots.md'' ''shots.json''
             [(''date'', FStr ''2020-01-01''), (''title'', FStr ''Shots'')]
             (read_images (Some (JArr shots_entries)))]"
    by (rule scan_albums_single [OF _ _ shots_names shots_front_matter])
       (simp_all add: shots_state_def)
  then show ?thesis by (simp add: read_shots shots_album_def)
qed

lemma getAlbum_shots: "getAlbum example_env shots_state ''shots'' = Some shots_album"
  by (rule getAlbum_single [OF scan_shots]) (simp_all add: shots_state_def shots_album_def make_album_def)

lemma images_shots: "images shots_album = shots_images"
  by (simp add: shots_album_def make_album_def)

subsection \<open>Deleting an image\<close>

lemma length_remove_at: "k < length xs \<Longrightarrow> length (remove_at k xs) = length xs - 1"
  by (simp add: remove_at_def)

lemma nth_remove_at:
  "k < length xs \<Longrightarrow> j < length xs - 1 \<Longrightarrow>
   remove_at k xs ! j = (if j < k then xs ! j else xs ! Suc j)"
  by (auto simp: remove_at_def nth_append min_def)

text \<open>The four ways through the route for an album that exists.\<close>

lemma deleteImage_out_of_range:
  assumes "getAlbum e s slg = Some album" and "parseInt index = Some k"
    and "k < 0 \<or> k \<ge> int (length (images album))"
  shows "deleteImage e slg index s = (Fail400 ''Invalid image index'', s)"
  using assms by (simp add: deleteImage_def)

lemma deleteImage_removes:
  assumes "getAlbum e s slg = Some album" and "parseInt index = Some k"
    and "0 \<le> k" and "k < int (length (images album))"
    and "pathname e (url (images album ! nat k)) = Some urlPath"
    and "pathname e (thumb (images album ! nat k)) = Some thumbPath"
  shows "fst (deleteImage e slg index s) = Success ''Image deleted''
       \<and> posts (snd (deleteImage e slg index s)) = posts s
       \<and> data (snd (deleteImage e slg index s)) =
           writeFileSync (jsonFile album)
             (Some (JArr (map image_json (remove_at (nat k) (images album))))) (data s)
       \<and> length (remove_at (nat k) (images album)) = length (images album) - 1"
  using assms by (simp add: deleteImage_def Let_def length_remove_at)

lemma deleteImage_url_throws:
  assumes "getAlbum e s slg = Some album" and "parseInt index = Some k"
    and "0 \<le> k" and "k < int (length (images album))"
    and "pathname e (url (images album ! nat k)) = None
         \<or> pathname e (thumb (images album ! nat k)) = None"
  shows "deleteImage e slg index s = (Fail500, s)"
  using assms by (auto simp: deleteImage_def Let_def split: option.splits)

lemma deleteImage_not_a_number:
  assumes "getAlbum e s slg = Some album" and "parseInt index = None"
  shows "deleteImage e slg index s = (Fail500, s)"
  using assms by (simp add: deleteImage_def)

lemma parseInt_examples: "parseInt ''0'' = Some 0" "parseInt ''abc'' = None"
  by code_simp+

lemma path_is_no_url: "pathname example_env (url (images shots_album ! 0)) = None"
  by (simp add: images_shots shots_images_def example_env_def example_pathname_def)

text \<open>C4, at two requests, on the album of three images whose first entry has paths for
  links. Index \<open>0\<close> is a valid position, but \<^verbatim>\<open>new URL\<close> throws on the path
  before anything is deleted: the route answers with status 500 and the descriptor still holds
  three entries. The index \<^verbatim>\<open>abc\<close> is no number and passes the range check: the
  route answers with status 500, not with the status 400 of an invalid index.\<close>

theorem delete_image_fails_on_path_link:
  "getAlbum example_env shots_state ''shots'' = Some shots_album
   \<and> parseInt ''0'' = Some 0
   \<and> length (images shots_album) = 3
   \<and> deleteImage example_env ''shots'' ''0'' shots_state = (Fail500, shots_state)
   \<and> parseInt ''abc'' = None
   \<and> deleteImage example_env ''shots'' ''abc'' shots_state = (Fail500, shots_state)"
proof -
  have l: "length (images shots_album) = 3"
    by (simp add: images_shots shots_images_def)
  have "deleteImage example_env ''shots'' ''0'' shots_state = (Fail500, shots_state)"
    by (rule deleteImage_url_throws [OF getAlbum_shots parseInt_examples(1)])
       (simp_all add: l path_is_no_url)
  moreover have "deleteImage example_env ''shots'' ''abc'' shots_state = (Fail500, shots_state)"
    by (rule deleteImage_not_a_number [OF getAlbum_shots parseInt_examples(2)])
  ultimately show ?thesis
    by (simp add: getAlbum_shots parseInt_examples l)
qed

subsection \<open>Reordering the images\<close>

text \<open>The images of an album that \<^verbatim>\<open>getAlbum\<close> returns were made by the reader of
  the descriptor: each is the normal form of some descriptor entry.\<close>

lemma set_insert_sorted: "set (insert_sorted cmp x xs) = insert x (set xs)"
  by (induction xs) auto

lemma set_js_sort: "set (js_sort cmp xs) = set xs"
  by (induction xs) (simp_all add: js_sort_def set_insert_sorted)

lemma getAlbum_scanned: "getAlbum e s slg = Some a \<Longrightarrow> a \<in> set (scan_albums s)"
proof -
  assume "getAlbum e s slg = Some a"
  then have "a \<in> set (getAlbums e s)"
    unfolding getAlbum_def by (metis find_Some_iff nth_mem)
  then show ?thesis
    by (simp add: getAlbums_def sort_albums_def set_js_sort split: if_splits)
qed

lemma scanned_images: "a \<in> set (scan_albums s) \<Longrightarrow> \<exists>c. images a = read_images c"
proof -
  assume "a \<in> set (scan_albums s)"
  then obtain jf where "read_album (posts s) jf = Some a"
    by (auto simp: scan_albums_def List.map_filter_def)
  then have "images a = read_images (snd jf)"
    by (auto simp: read_album_def make_album_def Let_def split: list.splits option.splits)
  then show ?thesis ..
qed

lemma read_images_normalized: "img \<in> set (read_images c) \<Longrightarrow> \<exists>raw. img = normalize_image raw"
  by (auto simp: read_images_def split: option.splits json.splits if_splits)

lemma getAlbum_normalized:
  assumes "getAlbum e s slg = Some album" and "k < length (images album)"
  shows "\<exists>raw. images album ! k = normalize_image raw"
proof -
  from assms(1) obtain c where "images album = read_images c"
    using getAlbum_scanned scanned_images by blast
  with assms(2) show ?thesis
    using read_images_normalized [of "images album ! k" c] by simp
qed

text \<open>Writing an image and reading it again.\<close>

lemma normalize_written:
  "url (normalize_image (image_json (normalize_image raw))) = url (normalize_image raw)"
  "thumb (normalize_image (image_json (normalize_image raw))) = thumb (normalize_image raw)"
  "width (normalize_image (image_json (normalize_image raw))) = width (normalize_image raw)"
  "height (normalize_image (image_json (normalize_image raw))) = height (normalize_image raw)"
  by (simp_all add: normalize_image_def image_json_def or_default_def or_else_def split: option.splits)

lemma normalize_written_ratio:
  "aspectRatio img = Num n \<Longrightarrow> n \<noteq> 0 \<Longrightarrow> aspectRatio (normalize_image (image_json img)) = Num n"
  by (simp add: normalize_image_def image_json_def or_default_def or_else_def)


lemma read_written:
  assumes "\<forall>i\<in>set ord. 0 \<le> i \<and> i < int (length imgs)"
  shows "read_images (Some (JArr (map (image_at imgs) ord)))
           = map (\<lambda>i. normalize_image (image_json (imgs ! nat i))) ord"
proof -
  have "map (image_at imgs) ord = map (\<lambda>i. image_json (imgs ! nat i)) ord"
    using assms by (simp add: image_at_def)
  moreover have "JNull \<notin> set (map (\<lambda>i. image_json (imgs ! nat i)) ord)"
    by (auto simp: image_json_def)
  ultimately show ?thesis by (simp add: read_images_def comp_def)
qed

lemma three_entries:
  assumes "length out = 3" and "out ! 0 = x" and "out ! 1 = y" and "out ! 2 = z"
  shows "out = [x, y, z]"
  using assms by (auto simp: numeral_3_eq_3 length_Suc_conv)

text \<open>C5: for an album that exists and any array of whole numbers, reordering succeeds and
  rewrites the descriptor of the album as an array with one entry for each member of the order,
  in the sequence of the order; the post files and the storage service are not touched.
  Nothing is checked. For a member \<open>i\<close> in range the entry is the object with the
  \<^verbatim>\<open>url\<close>, \<^verbatim>\<open>thumb\<close>, \<^verbatim>\<open>aspectRatio\<close>, \<^verbatim>\<open>width\<close> and
  \<^verbatim>\<open>height\<close> of \<^verbatim>\<open>album.images[i]\<close> (an aspect ratio that is not finite
  is written as \<^verbatim>\<open>null\<close>), so that an index given twice gives its image twice and
  an index left out drops its image; for a member out of range the entry is
  \<^verbatim>\<open>null\<close>. When all members are in range, reading the written descriptor gives one
  image for each member of the order, with the \<^verbatim>\<open>url\<close>, \<^verbatim>\<open>thumb\<close>,
  \<^verbatim>\<open>width\<close> and \<^verbatim>\<open>height\<close> of \<^verbatim>\<open>album.images[i]\<close>, and with its
  aspect ratio when that is a number other than zero.\<close>

theorem reorder_follows_indices:
  assumes "getAlbum e s slg = Some album"
  shows "\<exists>out.
           reorderImages e slg (Some ord) s =
             (Success ''Images reordered'',
              s\<lparr>data := writeFileSync (jsonFile album) (Some (JArr out)) (data s)\<rparr>)
         \<and> length out = length ord
         \<and> (\<forall>j<length ord. 0 \<le> ord ! j \<and> ord ! j < int (length (images album)) \<longrightarrow>
               out ! j =
                 JObj [(''url'', url (images album ! nat (ord ! j))),
                       (''thumb'', thumb (images album ! nat (ord ! j))),
                       (''aspectRatio'', num_json (aspectRatio (images album ! nat (ord ! j)))),
                       (''width'', width (images album ! nat (ord ! j))),
                       (''height'', height (images album ! nat (ord ! j)))])
         \<and> (\<forall>j<length ord. \<not> (0 \<le> ord ! j \<and> ord ! j < int (length (images album))) \<longrightarrow>
               out ! j = JNull)
         \<and> ((\<forall>i\<in>set ord. 0 \<le> i \<and> i < int (length (images album))) \<longrightarrow>
               length (read_images (Some (JArr out))) = length ord
             \<and> (\<forall>j<length ord.
                   url (read_images (Some (JArr out)) ! j) = url (images album ! nat (ord ! j))
                 \<and> thumb (read_images (Some (JArr out)) ! j) = thumb (images album ! nat (ord ! j))
                 \<and> width (read_images (Some (JArr out)) ! j) = width (images album ! nat (ord ! j))
                 \<and> height (read_images (Some (JArr out)) ! j) = height (images album ! nat (ord ! j))
                 \<and> (\<forall>n. aspectRatio (images album ! nat (ord ! j)) = Num n \<and> n \<noteq> 0 \<longrightarrow>
                        aspectRatio (read_images (Some (JArr out)) ! j) = Num n)))"
proof (intro exI [of _ "map (image_at (images album)) ord"] conjI impI)
  show "reorderImages e slg (Some ord) s =
          (Success ''Images reordered'',
           s\<lparr>data := writeFileSync (jsonFile album)
                        (Some (JArr (map (image_at (images album)) ord))) (data s)\<rparr>)"
    using assms by (simp add: reorderImages_def)
  show "length (map (image_at (images album)) ord) = length ord" by simp
  show "\<forall>j<length ord. 0 \<le> ord ! j \<and> ord ! j < int (length (images album)) \<longrightarrow>
          map (image_at (images album)) ord ! j =
            JObj [(''url'', url (images album ! nat (ord ! j))),
                  (''thumb'', thumb (images album ! nat (ord ! j))),
                  (''aspectRatio'', num_json (aspectRatio (images album ! nat (ord ! j)))),
                  (''width'', width (images album ! nat (ord ! j))),
                  (''height'', height (images album ! nat (ord ! j)))]"
    by (simp add: image_at_def image_json_def)
  show "\<forall>j<length ord. \<not> (0 \<le> ord ! j \<and> ord ! j < int (length (images album))) \<longrightarrow>
          map (image_at (images album)) ord ! j = JNull"
    by (simp add: image_at_def)
next
  assume r: "\<forall>i\<in>set ord. 0 \<le> i \<and> i < int (length (images album))"
  let ?reread = "read_images (Some (JArr (map (image_at (images album)) ord)))"
  have rd: "?reread = map (\<lambda>i. normalize_image (image_json (images album ! nat i))) ord"
    by (rule read_written [OF r])
  show "length ?reread = length ord" by (simp add: rd)
  show "\<forall>j<length ord.
          url (?reread ! j) = url (images album ! nat (ord ! j))
        \<and> thumb (?reread ! j) = thumb (images album ! nat (ord ! j))
        \<and> width (?reread ! j) = width (images album ! nat (ord ! j))
        \<and> height (?reread ! j) = height (images album ! nat (ord ! j))
        \<and> (\<forall>n. aspectRatio (images album ! nat (ord ! j)) = Num n \<and> n \<noteq> 0 \<longrightarrow>
               aspectRatio (?reread ! j) = Num n)"
  proof (intro allI impI)
    fix j assume j: "j < length ord"
    with r have "nat (ord ! j) < length (images album)" by (auto simp: nat_less_iff)
    then obtain raw where raw: "images album ! nat (ord ! j) = normalize_image raw"
      using getAlbum_normalized [OF assms] by blast
    show "url (?reread ! j) = url (images album ! nat (ord ! j))
        \<and> thumb (?reread ! j) = thumb (images album ! nat (ord ! j))
        \<and> width (?reread ! j) = width (images album ! nat (ord ! j))
        \<and> height (?reread ! j) = height (images album ! nat (ord ! j))
        \<and> (\<forall>n. aspectRatio (images album ! nat (ord ! j)) = Num n \<and> n \<noteq> 0 \<longrightarrow>
               aspectRatio (?reread ! j) = Num n)"
      using j by (simp add: rd raw normalize_written normalize_written_ratio)
  qed
qed


text \<open>The album of three images with the orders \<open>2, 0, 1\<close> and \<open>1, 1, 7\<close>: the
  descriptor that is written, and the images that \<^verbatim>\<open>getAlbums\<close> reads from it.\<close>

theorem reorder_follows_indices_witness:
  "reorderImages example_env ''shots'' (Some [2, 0, 1]) shots_state =
     (Success ''Images reordered'',
      shots_state\<lparr>data := [(''shots.json'',
         Some (JArr
           [JObj [(''url'', JStr ''https://cdn.example.com/shots/img002.jpg''),
                  (''thumb'', JStr ''https://cdn.example.com/shots/thumb/img002.webp''),
                  (''aspectRatio'', JNum (4 / 3)), (''width'', JNum 1600), (''height'', JNum 1200)],
            JObj [(''url'', JStr ''/assets/shots/one.jpg''),
                  (''thumb'', JStr ''/assets/shots/one-small.jpg''),
                  (''aspectRatio'', JNum (3 / 2)), (''width'', JNum 0), (''height'', JNum 0)],
            JObj [(''url'', JStr ''https://cdn.example.com/shots/img001.jpg''),
                  (''thumb'', JStr ''https://cdn.example.com/shots/thumb/img001.webp''),
                  (''aspectRatio'', JNum (16 / 9)), (''width'', JNum 1920), (''height'', JNum 1080)]]))]\<rparr>)
   \<and> map images (getAlbums example_env (snd (reorderImages example_env ''shots'' (Some [2, 0, 1]) shots_state))) =
       [[\<lparr> url = JStr ''https://cdn.example.com/shots/img002.jpg'',
            thumb = JStr ''https://cdn.example.com/shots/thumb/img002.webp'',
            aspectRatio = Num (4 / 3), width = JNum 1600, height = JNum 1200 \<rparr>,
         \<lparr> url = JStr ''/assets/shots/one.jpg'', thumb = JStr ''/assets/shots/one-small.jpg'',
            aspectRatio = Num (3 / 2), width = JNum 0, height = JNum 0 \<rparr>,
         \<lparr> url = JStr ''https://cdn.example.com/shots/img001.jpg'',
            thumb = JStr ''https://cdn.example.com/shots/thumb/img001.webp'',
            aspectRatio = Num (16 / 9), width = JNum 1920, height = JNum 1080 \<rparr>]]
   \<and> reorderImages example_env ''shots'' (Some [1, 1, 7]) shots_state =
     (Success ''Images reordered'',
      shots_state\<lparr>data := [(''shots.json'',
         Some (JArr
           [JObj [(''url'', JStr ''https://cdn.example.com/shots/img001.jpg''),
                  (''thumb'', JStr ''https://cdn.example.com/shots/thumb/img001.webp''),
                  (''aspectRatio'', JNum (16 / 9)), (''width'', JNum 1920), (''height'', JNum 1080)],
            JObj [(''url'', JStr ''https://cdn.example.com/shots/img001.jpg''),
                  (''thumb'', JStr ''https://cdn.example.com/shots/thumb/img001.webp''),
                  (''aspectRatio'', JNum (16 / 9)), (''width'', JNum 1920), (''height'', JNum 1080)],
            JNull]))]\<rparr>)"
proof -
  let ?two = "JObj [(''url'', JStr ''https://cdn.example.com/shots/img002.jpg''),
                  (''thumb'', JStr ''https://cdn.example.com/shots/thumb/img002.webp''),
                  (''aspectRatio'', JNum (4 / 3)), (''width'', JNum 1600), (''height'', JNum 1200)]"
  let ?zero = "JObj [(''url'', JStr ''/assets/shots/one.jpg''),
                  (''thumb'', JStr ''/assets/shots/one-small.jpg''),
                  (''aspectRatio'', JNum (3 / 2)), (''width'', JNum 0), (''height'', JNum 0)]"
  let ?one = "JObj [(''url'', JStr ''https://cdn.example.com/shots/img001.jpg''),
                  (''thumb'', JStr ''https://cdn.example.com/shots/thumb/img001.webp''),
                  (''aspectRatio'', JNum (16 / 9)), (''width'', JNum 1920), (''height'', JNum 1080)]"
  have j: "jsonFile shots_album = ''shots.json''"
    by (simp add: shots_album_def make_album_def)
  have d: "data shots_state = [(''shots.json'', Some (JArr shots_entries))]"
    by (simp add: shots_state_def)
  have l: "length (images shots_album) = 3" by (simp add: images_shots shots_images_def)
  from reorder_follows_indices [OF getAlbum_shots, of "[2, 0, 1]"]
  obtain out where
    r: "reorderImages example_env ''shots'' (Some [2, 0, 1]) shots_state =
          (Success ''Images reordered'',
           shots_state\<lparr>data := writeFileSync ''shots.json'' (Some (JArr out)) (data shots_state)\<rparr>)"
    and n: "length out = 3"
    and e: "\<forall>j<3. out ! j =
              JObj [(''url'', url (images shots_album ! nat ([2, 0, 1] ! j))),
                    (''thumb'', thumb (images shots_album ! nat ([2, 0, 1] ! j))),
                    (''aspectRatio'', num_json (aspectRatio (images shots_album ! nat ([2, 0, 1] ! j)))),
                    (''width'', width (images shots_album ! nat ([2, 0, 1] ! j))),
                    (''height'', height (images shots_album ! nat ([2, 0, 1] ! j)))]"
    by (auto simp: j l less_Suc_eq numeral_3_eq_3)
  have "out ! 0 = ?two" "out ! 1 = ?zero" "out ! 2 = ?one"
    using e by (simp_all add: images_shots shots_images_def)
  with n have out: "out = [?two, ?zero, ?one]" by (rule three_entries)
  have first: "reorderImages example_env ''shots'' (Some [2, 0, 1]) shots_state =
          (Success ''Images reordered'',
           shots_state\<lparr>data := [(''shots.json'', Some (JArr [?two, ?zero, ?one]))]\<rparr>)"
    using r by (simp add: out d)
  let ?s = "shots_state\<lparr>data := [(''shots.json'', Some (JArr [?two, ?zero, ?one]))]\<rparr>"
  have "scan_albums ?s =
          [make_album ''shots'' ''2020-01-01-shots.md'' ''shots.json''
             [(''date'', FStr ''2020-01-01''), (''title'', FStr ''Shots'')]
             (read_images (Some (JArr [?two, ?zero, ?one])))]"
    by (rule scan_albums_single [OF _ _ shots_names shots_front_matter])
       (simp_all add: shots_state_def)
  then have "getAlbums example_env ?s =
          [make_album ''shots'' ''2020-01-01-shots.md'' ''shots.json''
             [(''date'', FStr ''2020-01-01''), (''title'', FStr ''Shots'')]
             (read_images (Some (JArr [?two, ?zero, ?one])))]"
    by (simp add: getAlbums_def sort_albums_def getAlbumOrder_def js_sort_def)
  then have second: "map images (getAlbums example_env ?s) =
       [[\<lparr> url = JStr ''https://cdn.example.com/shots/img002.jpg'',
            thumb = JStr ''https://cdn.example.com/shots/thumb/img002.webp'',
            aspectRatio = Num (4 / 3), width = JNum 1600, height = JNum 1200 \<rparr>,
         \<lparr> url = JStr ''/assets/shots/one.jpg'', thumb = JStr ''/assets/shots/one-small.jpg'',
            aspectRatio = Num (3 / 2), width = JNum 0, height = JNum 0 \<rparr>,
         \<lparr> url = JStr ''https://cdn.example.com/shots/img001.jpg'',
            thumb = JStr ''https://cdn.example.com/shots/thumb/img001.webp'',
            aspectRatio = Num (16 / 9), width = JNum 1920, height = JNum 1080 \<rparr>]]"
    by (simp add: make_album_def read_images_def normalize_image_def or_default_def or_else_def)
  from reorder_follows_indices [OF getAlbum_shots, of "[1, 1, 7]"]
  obtain out' where
    r': "reorderImages example_env ''shots'' (Some [1, 1, 7]) shots_state =
          (Success ''Images reordered'',
           shots_state\<lparr>data := writeFileSync (jsonFile shots_album) (Some (JArr out')) (data shots_state)\<rparr>)"
    and n': "length out' = length [1, 1, 7 :: int]"
    and a: "\<forall>j<length [1, 1, 7 :: int].
              0 \<le> [1, 1, 7 :: int] ! j \<and> [1, 1, 7] ! j < int (length (images shots_album)) \<longrightarrow>
              out' ! j =
                JObj [(''url'', url (images shots_album ! nat ([1, 1, 7] ! j))),
                      (''thumb'', thumb (images shots_album ! nat ([1, 1, 7] ! j))),
                      (''aspectRatio'', num_json (aspectRatio (images shots_album ! nat ([1, 1, 7] ! j)))),
                      (''width'', width (images shots_album ! nat ([1, 1, 7] ! j))),
                      (''height'', height (images shots_album ! nat ([1, 1, 7] ! j)))]"
    and b: "\<forall>j<length [1, 1, 7 :: int].
              \<not> (0 \<le> [1, 1, 7 :: int] ! j \<and> [1, 1, 7] ! j < int (length (images shots_album))) \<longrightarrow>
              out' ! j = JNull"
    by (elim exE conjE) (rule that)
  have n': "length out' = 3" using n' by simp
  have e': "out' ! 0 = ?one" "out' ! 1 = ?one" "out' ! 2 = JNull"
    using a [rule_format, of 0] a [rule_format, of 1] b [rule_format, of 2]
    by (simp_all add: l images_shots shots_images_def)
  from n' e' have "out' = [?one, ?one, JNull]" by (rule three_entries)
  with r' have third: "reorderImages example_env ''shots'' (Some [1, 1, 7]) shots_state =
          (Success ''Images reordered'',
           shots_state\<lparr>data := [(''shots.json'', Some (JArr [?one, ?one, JNull]))]\<rparr>)"
    by (simp add: d j)
  from first second third show ?thesis by simp
qed

subsection \<open>Updating the metadata\<close>

lemma scan_albums_single_parsed:
  assumes "posts s = [(pf, text)]" and "data s = [(jf, content)]"
    and "endsWith jf ''.json''" and "\<not> startsWith jf ''_''"
    and "remove_first ''.json'' jf = slg" and "endsWith pf (slg @ ''.md'')"
    and "map_option (\<lambda>m. parse_front_matter (fst m)) (frontMatterMatch text) = Some fm"
  shows "scan_albums s = [make_album slg pf jf fm (read_images content)]"
proof -
  from assms(7) obtain block body where
    "frontMatterMatch text = Some (block, body)" "parse_front_matter block = fm"
    by (cases "frontMatterMatch text") auto
  from scan_albums_single [OF assms(1-6) this] show ?thesis .
qed

lemma read_no_images: "read_images (Some (JArr [])) = []"
  by (simp add: read_images_def)

lemma say_hi_names:
  "endsWith ''say-hi.json'' ''.json''" "\<not> startsWith ''say-hi.json'' ''_''"
  "remove_first ''.json'' ''say-hi.json'' = ''say-hi''"
  "endsWith ''2020-01-01-say-hi.md'' (''say-hi'' @ ''.md'')"
  by code_simp+

lemma quote_created:
  "createAlbum example_env quote_request empty_state
     = (Success (created_message (''say '' @ [DQUOTE] @ ''hi'' @ [DQUOTE]) 0), quote_state)"
  by code_simp

lemma quote_parsed:
  "map_option (\<lambda>m. parse_front_matter (fst m))
     (frontMatterMatch (post_text ''say-hi''
        ([DQUOTE] @ ''say '' @ [BSLASH, DQUOTE] @ ''hi'' @ [BSLASH, DQUOTE] @ [DQUOTE])
        ([DQUOTE] @ ''Virtual Photography'' @ [DQUOTE])))
   = Some (post_front_matter ''say-hi''
        (FStr (''say '' @ [BSLASH, DQUOTE] @ ''hi'' @ [BSLASH, DQUOTE])) (FStr ''Virtual Photography''))"
  by code_simp


lemma quote_updated_parsed:
  "map_option (\<lambda>m. parse_front_matter (fst m))
     (frontMatterMatch (post_text ''say-hi''
        ([DQUOTE] @ ''say '' @ [BSLASH, BSLASH, DQUOTE] @ ''hi'' @ [BSLASH, BSLASH, DQUOTE] @ [DQUOTE])
        ([DQUOTE] @ ''X'' @ [DQUOTE])))
   = Some (post_front_matter ''say-hi''
        (FStr (''say '' @ [BSLASH, BSLASH, DQUOTE] @ ''hi'' @ [BSLASH, BSLASH, DQUOTE])) (FStr ''X''))"
  by code_simp

lemma getAlbum_quote:
  "getAlbum example_env quote_state ''say-hi''
     = Some (make_album ''say-hi'' ''2020-01-01-say-hi.md'' ''say-hi.json''
               (post_front_matter ''say-hi''
                  (FStr (''say '' @ [BSLASH, DQUOTE] @ ''hi'' @ [BSLASH, DQUOTE]))
                  (FStr ''Virtual Photography'')) [])"
proof -
  have "scan_albums quote_state
          = [make_album ''say-hi'' ''2020-01-01-say-hi.md'' ''say-hi.json''
               (post_front_matter ''say-hi''
                  (FStr (''say '' @ [BSLASH, DQUOTE] @ ''hi'' @ [BSLASH, DQUOTE]))
                  (FStr ''Virtual Photography'')) (read_images (Some (JArr [])))]"
    by (rule scan_albums_single_parsed [OF _ _ say_hi_names quote_parsed])
       (simp_all add: quote_state_def)
  then show ?thesis
    by (intro getAlbum_single) (simp_all add: read_no_images quote_state_def make_album_def)
qed

lemma getAlbum_quote_updated:
  "getAlbum example_env quote_state_updated ''say-hi''
     = Some (make_album ''say-hi'' ''2020-01-01-say-hi.md'' ''say-hi.json''
               (post_front_matter ''say-hi''
                  (FStr (''say '' @ [BSLASH, BSLASH, DQUOTE] @ ''hi'' @ [BSLASH, BSLASH, DQUOTE]))
                  (FStr ''X'')) [])"
proof -
  have "scan_albums quote_state_updated
          = [make_album ''say-hi'' ''2020-01-01-say-hi.md'' ''say-hi.json''
               (post_front_matter ''say-hi''
                  (FStr (''say '' @ [BSLASH, BSLASH, DQUOTE] @ ''hi'' @ [BSLASH, BSLASH, DQUOTE]))
                  (FStr ''X'')) (read_images (Some (JArr [])))]"
    by (rule scan_albums_single_parsed [OF _ _ say_hi_names quote_updated_parsed])
       (simp_all add: quote_state_updated_def)
  then show ?thesis
    by (intro getAlbum_single) (simp_all add: read_no_images quote_state_updated_def make_album_def)
qed

lemma quote_regenerated:
  "generatePostMarkdown example_env
     (merged_data
        (make_album ''say-hi'' ''2020-01-01-say-hi.md'' ''say-hi.json''
           (post_front_matter ''say-hi''
              (FStr (''say '' @ [BSLASH, DQUOTE] @ ''hi'' @ [BSLASH, DQUOTE]))
              (FStr ''Virtual Photography'')) [])
        only_description)
   = Some (post_text ''say-hi''
        ([DQUOTE] @ ''say '' @ [BSLASH, BSLASH, DQUOTE] @ ''hi'' @ [BSLASH, BSLASH, DQUOTE] @ [DQUOTE])
        ([DQUOTE] @ ''X'' @ [DQUOTE]))"
  by code_simp

lemma quote_updated:
  "updateAlbum example_env ''say-hi'' only_description quote_state
     = (Success ''Album updated'', quote_state_updated)"
proof -
  have c: "changed_date (upd_date only_description) d = None" for d
    by (simp add: changed_date_def only_description_def)
  show ?thesis
    unfolding updateAlbum_def getAlbum_quote option.case Let_def c quote_regenerated
    by (simp add: make_album_def quote_state_def quote_state_updated_def)
qed

text \<open>C2, at an album whose title holds double quotes. The album is the one that the route
  of creation writes for the title \<^verbatim>\<open>say "hi"\<close>; it is listed with the title
  \<^verbatim>\<open>say \"hi\"\<close>, since the reader removes the outer quotes but not the escapes.
  An update that gives the description only succeeds, escapes the quotes of that title once
  more, and the album is then listed with the title \<^verbatim>\<open>say \\"hi\\"\<close>.\<close>

theorem description_update_changes_title:
  "createAlbum example_env quote_request empty_state
     = (Success (created_message (''say '' @ [DQUOTE] @ ''hi'' @ [DQUOTE]) 0), quote_state)
   \<and> map_option title (getAlbum example_env quote_state ''say-hi'')
     = Some (FStr (''say '' @ [BSLASH, DQUOTE] @ ''hi'' @ [BSLASH, DQUOTE]))
   \<and> updateAlbum example_env ''say-hi'' only_description quote_state
     = (Success ''Album updated'', quote_state_updated)
   \<and> map_option title (getAlbum example_env quote_state_updated ''say-hi'')
     = Some (FStr (''say '' @ [BSLASH, BSLASH, DQUOTE] @ ''hi'' @ [BSLASH, BSLASH, DQUOTE]))"
  by (simp add: quote_created quote_updated getAlbum_quote getAlbum_quote_updated
        make_album_def post_front_matter_def fm_get_def fm_or_def)

subsection \<open>The body of a post file\<close>

lemma join_snoc: "xs \<noteq> [] \<Longrightarrow> join sep (xs @ [l]) = join sep xs @ sep @ l"
  by (induction sep xs rule: join.induct) auto

lemma generatePostMarkdown_shape:
  assumes "generatePostMarkdown e d = Some content"
  shows "startsWith content (''---'' @ [LF]) \<and> endsWith content (LF # ''---'')"
proof -
  from assms obtain l1 l2 l3 l4 l5 l6 l7 l8 l9 l10 l11 l12 l13 l14 l15 l16 where
    c: "content = join [LF] ([''---'', l1, l2, l3, l4, l5, l6, l7, l8, l9, l10, l11, l12, l13, l14, l15, l16]
                          @ [''---''])"
    unfolding generatePostMarkdown_def Let_def
    by (auto split: option.splits simp del: join.simps)
  have e: "content = (join [LF] [''---'', l1, l2, l3, l4, l5, l6, l7, l8, l9, l10, l11, l12, l13, l14, l15, l16])
                   @ (LF # ''---'')"
    unfolding c by (subst join_snoc) simp_all
  have "endsWith content (LF # ''---'')"
    by (subst e) (rule endsWith_append)
  moreover have "startsWith content (''---'' @ [LF])"
    by (subst e) (simp add: startsWith_def)
  ultimately show ?thesis by simp
qed

lemma notes_names:
  "endsWith ''notes.json'' ''.json''" "\<not> startsWith ''notes.json'' ''_''"
  "remove_first ''.json'' ''notes.json'' = ''notes''"
  "endsWith ''2020-01-01-notes.md'' (''notes'' @ ''.md'')"
  by code_simp+

lemma notes_parsed:
  "map_option (\<lambda>m. parse_front_matter (fst m))
     (frontMatterMatch (''---'' @ [LF] @ ''title: Notes'' @ [LF] @ ''date: 2020-01-01'' @ [LF] @ ''---''
                          @ [LF] @ ''Hello''))
   = Some [(''date'', FStr ''2020-01-01''), (''title'', FStr ''Notes'')]"
  by code_simp

lemma notes_body:
  "map_option snd
     (frontMatterMatch (''---'' @ [LF] @ ''title: Notes'' @ [LF] @ ''date: 2020-01-01'' @ [LF] @ ''---''
                          @ [LF] @ ''Hello''))
   = Some (LF # ''Hello'')"
  by code_simp

lemma getAlbum_notes: "getAlbum example_env notes_state ''notes'' = Some notes_album"
proof -
  have "scan_albums notes_state
          = [make_album ''notes'' ''2020-01-01-notes.md'' ''notes.json''
               [(''date'', FStr ''2020-01-01''), (''title'', FStr ''Notes'')]
               (read_images (Some (JArr [])))]"
    by (rule scan_albums_single_parsed [OF _ _ notes_names notes_parsed])
       (simp_all add: notes_state_def)
  then show ?thesis
    by (intro getAlbum_single)
       (simp_all add: read_no_images notes_state_def notes_album_def make_album_def)
qed

lemma notes_regenerated:
  "generatePostMarkdown example_env (merged_data notes_album only_description) = Some notes_rewritten"
  by code_simp

lemma notes_updated:
  "updateAlbum example_env ''notes'' only_description notes_state
     = (Success ''Album updated'',
        notes_state\<lparr>posts := [(''2020-01-01-notes.md'', notes_rewritten)]\<rparr>)"
proof -
  have c: "changed_date (upd_date only_description) d = None" for d
    by (simp add: changed_date_def only_description_def)
  show ?thesis
    unfolding updateAlbum_def getAlbum_notes option.case Let_def c notes_regenerated
    by (simp add: notes_album_def make_album_def notes_state_def)
qed

lemma notes_rewritten_without_body: "\<not> contains notes_rewritten ''Hello''"
  by code_simp

text \<open>The claim C3 as it is written fails. The post file of the album \<open>notes\<close> has the
  body \<^verbatim>\<open>Hello\<close> after its front matter; the update of the description succeeds,
  and the file it writes does not hold that text any more.\<close>

theorem update_drops_body:
  "map_option snd
     (frontMatterMatch (''---'' @ [LF] @ ''title: Notes'' @ [LF] @ ''date: 2020-01-01'' @ [LF] @ ''---''
                          @ [LF] @ ''Hello''))
     = Some (LF # ''Hello'')
   \<and> updateAlbum example_env ''notes'' only_description notes_state
     = (Success ''Album updated'',
        notes_state\<lparr>posts := [(''2020-01-01-notes.md'', notes_rewritten)]\<rparr>)
   \<and> \<not> contains notes_rewritten ''Hello''"
  using notes_body notes_updated notes_rewritten_without_body by simp

text \<open>C3, amended: a successful update writes the post file anew as the front matter that
  \<^verbatim>\<open>generatePostMarkdown\<close> makes from the merged metadata, and nothing else: the
  file begins with the opening line of the front matter and ends with its closing line, so
  that a body that stood after the front matter is not kept.\<close>

theorem update_writes_front_matter_only:
  assumes "getAlbum e s slg = Some album"
    and "updateAlbum e slg req s = (Success msg, s')"
  shows "\<exists>content.
           generatePostMarkdown e (merged_data album req) = Some content
         \<and> map_of (posts s')
              (case changed_date (upd_date req) (date album) of
                 None \<Rightarrow> postFile album
               | Some d \<Rightarrow> d @ ''-'' @ slug album @ ''.md'') = Some content
         \<and> startsWith content (''---'' @ [LF])
         \<and> endsWith content (LF # ''---'')"
proof (cases "generatePostMarkdown e (merged_data album req)")
  case None
  with assms show ?thesis by (simp add: updateAlbum_def Let_def)
next
  case (Some content)
  with assms have "map_of (posts s')
              (case changed_date (upd_date req) (date album) of
                 None \<Rightarrow> postFile album
               | Some d \<Rightarrow> d @ ''-'' @ slug album @ ''.md'') = Some content"
    by (auto simp: updateAlbum_def Let_def map_of_writeFileSync)
  with Some generatePostMarkdown_shape [OF Some] show ?thesis by simp
qed

theorem update_writes_front_matter_only_witness:
  "map_of (posts (snd (updateAlbum example_env ''notes'' only_description notes_state)))
      ''2020-01-01-notes.md'' = Some notes_rewritten
   \<and> endsWith notes_rewritten (LF # ''---'')"
proof -
  have p: "postFile notes_album = ''2020-01-01-notes.md''"
    by (simp add: notes_album_def make_album_def)
  have c: "changed_date (upd_date only_description) (date notes_album) = None"
    by (simp add: changed_date_def only_description_def)
  from update_writes_front_matter_only [OF getAlbum_notes notes_updated]
  show ?thesis
    by (simp add: notes_regenerated notes_updated p c)
qed

subsection \<open>A stored zero\<close>

text \<open>C10: a front matter that stores the text \<^verbatim>\<open>0\<close> for an offset or a zoom is
  read as the default of that member, 50 for the four offsets and 100 for the two zooms:
  the parsed number \<open>0\<close> is falsy, and the default replaces it.\<close>

theorem stored_zero_reads_as_default:
  assumes "fm_get fm key = Some (FStr ''0'')"
  shows "(key = ''card-offset'' \<longrightarrow> cardOffset (make_album slg pf jf fm imgs) = 50)
       \<and> (key = ''card-offset-x'' \<longrightarrow> cardOffsetX (make_album slg pf jf fm imgs) = 50)
       \<and> (key = ''card-zoom'' \<longrightarrow> cardZoom (make_album slg pf jf fm imgs) = 100)
       \<and> (key = ''banner-offset'' \<longrightarrow> bannerOffset (make_album slg pf jf fm imgs) = 50)
       \<and> (key = ''banner-offset-x'' \<longrightarrow> bannerOffsetX (make_album slg pf jf fm imgs) = 50)
       \<and> (key = ''banner-zoom'' \<longrightarrow> bannerZoom (make_album slg pf jf fm imgs) = 100)"
  using assms by (auto simp: make_album_def parseInt_fm_def num_or_def parseInt_0)

lemma pfm: "parse_front_matter ''card-zoom: 0'' = [(''card-zoom'', FStr ''0'')]"
  by code_simp

theorem stored_zero_reads_as_default_witness:
  "fm_get (parse_front_matter ''card-zoom: 0'') ''card-zoom'' = Some (FStr ''0'')
   \<and> cardZoom (make_album ''a'' ''2020-01-01-a.md'' ''a.json'' (parse_front_matter ''card-zoom: 0'') []) = 100"
proof -
  have h: "fm_get (parse_front_matter ''card-zoom: 0'') ''card-zoom'' = Some (FStr ''0'')"
    by (simp add: pfm fm_get_def)
  from stored_zero_reads_as_default [OF h, of "''a''" "''2020-01-01-a.md''" "''a.json''" "[]"] h
  show ?thesis by simp
qed

subsection \<open>Legacy descriptors are normalised\<close>

lemma read_images_nth:
  "JNull \<notin> set rawImages \<Longrightarrow> i < length rawImages \<Longrightarrow>
   read_images (Some (JArr rawImages)) ! i = normalize_image (rawImages ! i)"
  by (simp add: read_images_def)

lemma length_read_images:
  "JNull \<notin> set rawImages \<Longrightarrow> length (read_images (Some (JArr rawImages))) = length rawImages"
  by (simp add: read_images_def)

text \<open>C9: a descriptor entry in the legacy naming scheme (\<^verbatim>\<open>imageFull-link\<close>,
  \<^verbatim>\<open>thumbnail-link\<close>, \<^verbatim>\<open>aspect-ratio\<close>, none of the current keys) is read by
  \<^verbatim>\<open>getAlbums\<close> as an image whose \<open>url\<close> and \<open>thumb\<close> are the two links, whose
  \<open>aspectRatio\<close> is \<^verbatim>\<open>parseFloat\<close> of the \<^verbatim>\<open>aspect-ratio\<close> value when that
  value is truthy and \<open>1.5\<close> when there is none (or a falsy one: \<^verbatim>\<open>null\<close>,
  \<open>0\<close>, the empty string), and whose \<open>width\<close> and \<open>height\<close>
  are \<open>0\<close>.\<close>

theorem legacy_entry_normalized:
  assumes "i < length rawImages" and "JNull \<notin> set rawImages"
    and "js_get (rawImages ! i) ''url'' = None"
    and "js_get (rawImages ! i) ''thumb'' = None"
    and "js_get (rawImages ! i) ''aspectRatio'' = None"
    and "js_get (rawImages ! i) ''width'' = None"
    and "js_get (rawImages ! i) ''height'' = None"
    and "js_get (rawImages ! i) ''imageFull-link'' = Some (JStr full)"
    and "js_get (rawImages ! i) ''thumbnail-link'' = Some (JStr small)"
  shows "url (read_images (Some (JArr rawImages)) ! i) = JStr full
       \<and> thumb (read_images (Some (JArr rawImages)) ! i) = JStr small
       \<and> width (read_images (Some (JArr rawImages)) ! i) = JNum 0
       \<and> height (read_images (Some (JArr rawImages)) ! i) = JNum 0
       \<and> (\<forall>r. js_get (rawImages ! i) ''aspect-ratio'' = Some r \<and> js_truthy r \<longrightarrow>
              aspectRatio (read_images (Some (JArr rawImages)) ! i) = parseFloat r)
       \<and> (js_get (rawImages ! i) ''aspect-ratio'' = None \<longrightarrow>
              aspectRatio (read_images (Some (JArr rawImages)) ! i) = Num (3 / 2))
       \<and> (\<forall>r. js_get (rawImages ! i) ''aspect-ratio'' = Some r \<and> \<not> js_truthy r \<longrightarrow>
              aspectRatio (read_images (Some (JArr rawImages)) ! i) = Num (3 / 2))"
proof -
  have n: "read_images (Some (JArr rawImages)) ! i = normalize_image (rawImages ! i)"
    using assms(1,2) by (simp add: read_images_nth)
  show ?thesis
    unfolding n normalize_image_def using assms(3-9)
    by (simp add: or_default_def or_else_def)
qed

lemma digits_17778: "digits_value 10 ''17778'' = 17778"
  by (simp add: digits_value_def digit_value_def)

lemma parseFloat_example: "parseFloat (JStr ''1.7778'') = Num (8889 / 5000)"
  by (simp add: parseFloat_string_def trimStart_def is_space_def is_dec_def is_digit_def
        digit_value_def exponent_of_def scale10_def digits_17778)

theorem legacy_entry_normalized_witness:
  "url (read_images (Some (JArr [legacy_entry])) ! 0) = JStr ''https://cdn.example.com/a/full.jpg''
   \<and> thumb (read_images (Some (JArr [legacy_entry])) ! 0) = JStr ''https://cdn.example.com/a/small.jpg''
   \<and> aspectRatio (read_images (Some (JArr [legacy_entry])) ! 0) = Num (8889 / 5000)
   \<and> width (read_images (Some (JArr [legacy_entry])) ! 0) = JNum 0
   \<and> height (read_images (Some (JArr [legacy_entry])) ! 0) = JNum 0
   \<and> aspectRatio (read_images (Some (JArr [legacy_entry_no_ratio])) ! 0) = Num (3 / 2)"
proof -
  have a: "js_get legacy_entry ''aspect-ratio'' = Some (JStr ''1.7778'')"
    by (simp add: legacy_entry_def)
  have b: "js_get legacy_entry_no_ratio ''aspect-ratio'' = None"
    by (simp add: legacy_entry_no_ratio_def)
  have "aspectRatio (read_images (Some (JArr [legacy_entry])) ! 0) = parseFloat (JStr ''1.7778'')"
    using legacy_entry_normalized [of 0 "[legacy_entry]"
          "''https://cdn.example.com/a/full.jpg''" "''https://cdn.example.com/a/small.jpg''"] a
    by (simp add: legacy_entry_def)
  moreover have "aspectRatio (read_images (Some (JArr [legacy_entry_no_ratio])) ! 0) = Num (3 / 2)"
    using legacy_entry_normalized [of 0 "[legacy_entry_no_ratio]"
          "''https://cdn.example.com/a/full.jpg''" "''https://cdn.example.com/a/small.jpg''"] b
    by (simp add: legacy_entry_no_ratio_def)
  moreover have "url (read_images (Some (JArr [legacy_entry])) ! 0) = JStr ''https://cdn.example.com/a/full.jpg''
     \<and> thumb (read_images (Some (JArr [legacy_entry])) ! 0) = JStr ''https://cdn.example.com/a/small.jpg''
     \<and> width (read_images (Some (JArr [legacy_entry])) ! 0) = JNum 0
     \<and> height (read_images (Some (JArr [legacy_entry])) ! 0) = JNum 0"
    using legacy_entry_normalized [of 0 "[legacy_entry]"
          "''https://cdn.example.com/a/full.jpg''" "''https://cdn.example.com/a/small.jpg''"]
    by (simp add: legacy_entry_def)
  ultimately show ?thesis by (simp only: parseFloat_example) 
qed

end
